theory Spec2Isabelle
  imports Main "HOL-Library.Word"
begin

unbundle bit_operations_syntax

section \<open>Runtime values (src/vm/vm-datatypes.js, src/compiler/CompilerState.js)\<close>

text \<open>
  JavaScript object references are addresses into typed stores of the machine state; an
  address stands for a reference, which never dangles in the source. Numbers are IEEE-754
  doubles, kept as their 64-bit pattern. \<open>VUndefined\<close> is JavaScript's \<open>undefined\<close>, which
  the handlers push themselves (a missing property, a hole of the stack array).
  \<open>VPropertiesOf a\<close> is the raw \<open>properties\<close> record of the VM object at \<open>a\<close>, which
  \<open>OP_GET_PROPERTY_PROTO\<close> can push. \<open>VHostFunction\<close> and \<open>VHostObject\<close> are host values
  that the repository does not define; every JavaScript array is a \<open>VArray\<close>.
\<close>

type_synonym addr = nat

datatype NativeTarget =
    NativePromiseClass
  | NativeResolve addr
  | NativeReject addr
  | NativeHost string

datatype FunctionObject =
  FunctionObject (fn_name: string) (fn_arity: nat) (fn_bytecode: "nat list")
    (fn_constants: "Value list") (fn_upvalueCount: nat) (fn_upvalues: "(nat \<times> bool) list")
    (fn_isGenerator: bool) (fn_isAsync: bool)
and Value =
    VUndefined
  | VNull
  | VBool bool
  | VNumber "64 word"
  | VString string
  | VArray addr
  | VObject addr
  | VClosure addr
  | VFunctionObject FunctionObject
  | VNativeObject NativeTarget
  | VPromise addr
  | VGenerator addr
  | VPropertiesOf addr
  | VHostFunction string
  | VHostObject string

record CallFrame =
  func :: FunctionObject
  ip :: int
  stackBase :: nat
  closure :: addr
  asyncPromise :: "addr option"

record ExceptionHandler =
  targetIp :: int
  stackSize :: nat
  frameIndex :: int

record Upvalue =
  location :: int
  closed :: Value
  nextUpvalue :: "addr option"

record Closure =
  cl_func :: FunctionObject
  cl_upvalues :: "addr list"
  cl_prototype :: Value

text \<open>
  A VM object is the JavaScript object \<open>{properties: ..., prototype: ...}\<close>. Its
  \<open>properties\<close> record is a plain JavaScript object of its own: the list of its own
  entries, and its JavaScript prototype, which is \<open>Object.prototype\<close> until the program
  assigns null to the entry \<open>__proto__\<close> (that runs the setter the record inherits from
  \<open>Object.prototype\<close>; the model does not follow a record whose prototype is replaced by
  another object).
\<close>

datatype RecordPrototype = ObjectPrototype | NullPrototype

record VMObject =
  properties :: "(string \<times> Value) list"
  properties_proto :: RecordPrototype
  prototype :: Value

datatype PromiseState = PENDING | FULFILLED | REJECTED

text \<open>
  What \<open>PromiseV1.then\<close> receives as \<open>onFulfilled\<close> / \<open>onRejected\<close>: a value of the
  running program, or one of the arrow functions the repository itself passes (the two
  of \<open>OP_AWAIT\<close>, which capture the suspended frame, and the two of
  \<open>_resolveInternal\<close>, which capture the adopting promise).
\<close>

datatype Handler =
    HValue Value
  | HAwaitFulfilled addr
  | HAwaitRejected addr
  | HAdoptResolve addr
  | HAdoptReject addr

text \<open>
  \<open>scheduleFulfillment\<close> and \<open>scheduleRejection\<close> of one call of \<open>then\<close> are closures
  over the handler and over \<open>newPromise\<close>.
\<close>

record Callback =
  cb_handler :: Handler
  cb_target :: addr

record PromiseV1 =
  state :: PromiseState
  pvalue :: Value
  reason :: Value
  onFulfilledCallbacks :: "Callback list"
  onRejectedCallbacks :: "Callback list"

datatype Microtask =
    AsyncCallTask (callee: addr) (taskPromise: "addr option") (args: "Value list")
  | ResolveInternalTask addr Value
  | RejectInternalTask addr Value
  | FulfillmentTask Callback addr
  | RejectionTask Callback addr
  | AwaitResumeTask addr Value
  | AwaitRejectTask addr Value
  | HostTask string

datatype InterpretResult = OK | COMPILE_ERROR | RUNTIME_ERROR | YIELD

text \<open>
  A handler either returns, or it is left early: a JavaScript exception is thrown
  (\<open>TypeError\<close>, or \<open>Thrown\<close> for a \<open>throw new Error\<close> of the repository; both carry
  \<open>e.message\<close>, a \<open>TypeError\<close>'s being the host engine's wording), host code is called
  (\<open>HostCall\<close>), or the bytecode lacks an operand byte or names a property by a constant
  that is no string (\<open>Malformed\<close>), or an instruction is met whose handler, or the case
  of its handler that applies, is not part of this model (\<open>Unmodelled\<close>). Such a result
  is paired with the state reached, which is what a \<open>catch\<close> of the source continues from.
\<close>

datatype Escape = TypeError string | Thrown string | HostCall string | Malformed | Unmodelled nat

section \<open>The machine state (class VM, src/vm/VM.js)\<close>

record VM =
  stack :: "Value list"
  stackProps :: "int \<Rightarrow> Value option"
  globals :: "string \<Rightarrow> Value option"
  callFrames :: "addr list"
  currentFrame :: "addr option"
  openUpvalues :: "addr option"
  exceptionHandlers :: "ExceptionHandler list"
  microtaskQueue :: "Microtask list"
  MAX_CALL_FRAMES :: nat
  pendingHostOps :: int
  hasError :: bool
  consoleError :: "(Value \<times> string) list"
  frames :: "addr \<Rightarrow> CallFrame"
  closures :: "addr \<Rightarrow> Closure"
  upvalueCells :: "addr \<Rightarrow> Upvalue"
  objects :: "addr \<Rightarrow> VMObject"
  arrays :: "addr \<Rightarrow> Value list"
  promises :: "addr \<Rightarrow> PromiseV1"
  generators :: "addr \<Rightarrow> addr"
  nextAddr :: addr


section \<open>JavaScript arrays and the value stack\<close>

text \<open>
  Reading an array past its end gives \<open>undefined\<close>; writing past its end and setting
  \<open>length\<close> beyond the end leave holes, which read as \<open>undefined\<close>. An index below zero
  is not an element but a named property of the array object (\<open>stackProps\<close>).
\<close>

definition js_get :: "Value list \<Rightarrow> nat \<Rightarrow> Value" where
  "js_get xs i = (if i < length xs then xs ! i else VUndefined)"

definition js_set :: "Value list \<Rightarrow> nat \<Rightarrow> Value \<Rightarrow> Value list" where
  "js_set xs i v =
     (if i < length xs then xs[i := v] else xs @ replicate (i - length xs) VUndefined @ [v])"

definition js_set_length :: "nat \<Rightarrow> Value list \<Rightarrow> Value list" where
  "js_set_length n xs = take n xs @ replicate (n - length xs) VUndefined"

definition stackRead :: "VM \<Rightarrow> int \<Rightarrow> Value" where
  "stackRead vm i =
     (if 0 \<le> i then js_get (stack vm) (nat i)
      else (case stackProps vm i of Some v \<Rightarrow> v | None \<Rightarrow> VUndefined))"

definition stackWrite :: "int \<Rightarrow> Value \<Rightarrow> VM \<Rightarrow> VM" where
  "stackWrite i v vm =
     (if 0 \<le> i then vm\<lparr>stack := js_set (stack vm) (nat i) v\<rparr>
      else vm\<lparr>stackProps := (stackProps vm)(i := Some v)\<rparr>)"

definition andThen :: "'e + 'a \<Rightarrow> ('a \<Rightarrow> 'e + 'b) \<Rightarrow> 'e + 'b" where
  "andThen m f = (case m of Inl e \<Rightarrow> Inl e | Inr x \<Rightarrow> f x)"

definition scheduleMicrotask :: "Microtask \<Rightarrow> VM \<Rightarrow> VM" where
  "scheduleMicrotask task vm = vm\<lparr>microtaskQueue := microtaskQueue vm @ [task]\<rparr>"

definition push :: "Value \<Rightarrow> VM \<Rightarrow> VM" where
  "push v vm = vm\<lparr>stack := stack vm @ [v]\<rparr>"

text \<open>\<open>PromiseV1.resolve\<close> and \<open>PromiseV1.reject\<close> only schedule the settle routine.\<close>

definition resolve :: "addr \<Rightarrow> Value \<Rightarrow> VM \<Rightarrow> VM" where
  "resolve p v vm = scheduleMicrotask (ResolveInternalTask p v) vm"

definition reject :: "addr \<Rightarrow> Value \<Rightarrow> VM \<Rightarrow> VM" where
  "reject p r vm = scheduleMicrotask (RejectInternalTask p r) vm"

section \<open>VM.runtimeError\<close>

text \<open>
  The first loop of \<open>runtimeError\<close>, from the newest frame down (the list argument is
  the frame stack reversed): the promise of the first frame whose closure's function is
  async and whose \<open>asyncPromise\<close> is set, as long as \<open>rejectPromise\<close> holds.
\<close>

fun asyncFrameLoop :: "VM \<Rightarrow> bool \<Rightarrow> addr list \<Rightarrow> addr option" where
  "asyncFrameLoop vm rejectPromise [] = None"
| "asyncFrameLoop vm rejectPromise (f # fs) =
     (if fn_isAsync (cl_func (closures vm (closure (frames vm f))))
         \<and> asyncPromise (frames vm f) \<noteq> None \<and> rejectPromise
      then asyncPromise (frames vm f)
      else asyncFrameLoop vm rejectPromise fs)"

text \<open>The test of that loop, for one frame.\<close>

definition isAsyncFrame :: "VM \<Rightarrow> addr \<Rightarrow> bool" where
  "isAsyncFrame vm f =
     (fn_isAsync (cl_func (closures vm (closure (frames vm f)))) \<and> asyncPromise (frames vm f) \<noteq> None)"

text \<open>
  \<open>while (callFrames.length - 1 > handler.frameIndex) callFrames.pop()\<close>. A
  \<open>frameIndex\<close> is \<open>callFrames.length - 1\<close> of an earlier state, so it is never below -1
  and the loop ends at the latest on the empty stack.
\<close>

function popFramesAbove :: "int \<Rightarrow> addr list \<Rightarrow> addr list" where
  "popFramesAbove fi fs =
     (if fs \<noteq> [] \<and> int (length fs) - 1 > fi then popFramesAbove fi (butlast fs) else fs)"
  by pat_completeness auto
termination
  by (relation "measure (\<lambda>(fi, fs). length fs)") auto

declare popFramesAbove.simps [simp del]

definition runtimeError :: "Value \<Rightarrow> bool \<Rightarrow> VM \<Rightarrow> (Escape \<times> VM) + VM" where
  "runtimeError message rejectPromise vm =
     (case asyncFrameLoop vm rejectPromise (rev (callFrames vm)) of
        Some p \<Rightarrow> Inr ((reject p message vm)\<lparr>hasError := True\<rparr>)
      | None \<Rightarrow>
          if exceptionHandlers vm \<noteq> [] then
            (let handler = last (exceptionHandlers vm);
                 vm1 = vm\<lparr>exceptionHandlers := butlast (exceptionHandlers vm),
                          callFrames := popFramesAbove (frameIndex handler) (callFrames vm)\<rparr>
             in if callFrames vm1 = []
                then Inl (TypeError ''Cannot set properties of undefined (setting 'ip')'',
                          push message (vm1\<lparr>currentFrame := None,
                                stack := js_set_length (stackSize handler) (stack vm1)\<rparr>))
                else
                  (let f = last (callFrames vm1);
                       vm2 = push message
                               (vm1\<lparr>currentFrame := Some f,
                                    stack := js_set_length (stackSize handler) (stack vm1)\<rparr>)
                   in Inr (vm2\<lparr>frames := (frames vm2)(f := (frames vm2 f)\<lparr>ip := targetIp handler\<rparr>)\<rparr>)))
          else
            (let funcName = (case currentFrame vm of
                               Some f \<Rightarrow> fn_name (cl_func (closures vm (closure (frames vm f))))
                             | None \<Rightarrow> ''<script>'')
             in Inr (vm\<lparr>consoleError := consoleError vm @ [(message, funcName)],
                        hasError := True\<rparr>)))"

definition pop :: "VM \<Rightarrow> (Escape \<times> VM) + (Value \<times> VM)" where
  "pop vm =
     (if stack vm = []
      then andThen (runtimeError (VString ''Stack underflow!'') True vm) (\<lambda>vm1. Inr (VNull, vm1))
      else Inr (last (stack vm), vm\<lparr>stack := butlast (stack vm)\<rparr>))"

definition peek :: "nat \<Rightarrow> VM \<Rightarrow> (Escape \<times> VM) + (Value \<times> VM)" where
  "peek distance vm =
     (if length (stack vm) \<le> distance
      then andThen (runtimeError (VString ''Stack underflow for peek!'') True vm)
             (\<lambda>vm1. Inr (VNull, vm1))
      else Inr (stack vm ! (length (stack vm) - 1 - distance), vm))"

section \<open>Reading operands (class CallFrame)\<close>

definition byteAt :: "nat list \<Rightarrow> int \<Rightarrow> nat option" where
  "byteAt bc i = (if 0 \<le> i \<and> nat i < length bc then Some (bc ! nat i) else None)"

definition readByte :: "addr \<Rightarrow> VM \<Rightarrow> nat option \<times> VM" where
  "readByte f vm =
     (let fr = frames vm f
      in (byteAt (fn_bytecode (func fr)) (ip fr),
          vm\<lparr>frames := (frames vm)(f := fr\<lparr>ip := ip fr + 1\<rparr>)\<rparr>))"

text \<open>
  \<open>(bytecode[ip - 2] << 8) | bytecode[ip - 1]\<close> on JavaScript numbers: both operators
  work on 32-bit integers, and \<open>undefined\<close> converts to 0.
\<close>

definition toInt32 :: "nat option \<Rightarrow> 32 word" where
  "toInt32 b = (case b of None \<Rightarrow> 0 | Some n \<Rightarrow> of_nat n)"

definition readShort :: "addr \<Rightarrow> VM \<Rightarrow> int \<times> VM" where
  "readShort f vm =
     (let fr = frames vm f; i = ip fr + 2; bc = fn_bytecode (func fr)
      in (sint (push_bit 8 (toInt32 (byteAt bc (i - 2))) OR toInt32 (byteAt bc (i - 1))),
          vm\<lparr>frames := (frames vm)(f := fr\<lparr>ip := i\<rparr>)\<rparr>))"

definition withCurrentFrame ::
  "VM \<Rightarrow> (addr \<Rightarrow> (Escape \<times> VM) + 'a) \<Rightarrow> (Escape \<times> VM) + 'a" where
  "withCurrentFrame vm k =
     (case currentFrame vm of
        None \<Rightarrow> Inl (TypeError ''Cannot read properties of null'', vm)
      | Some f \<Rightarrow> k f)"

definition operand :: "VM \<Rightarrow> (nat \<Rightarrow> VM \<Rightarrow> (Escape \<times> VM) + 'a) \<Rightarrow> (Escape \<times> VM) + 'a" where
  "operand vm k =
     withCurrentFrame vm (\<lambda>f. case readByte f vm of
          (None, vm1) \<Rightarrow> Inl (Malformed, vm1)
        | (Some b, vm1) \<Rightarrow> k b vm1)"

section \<open>Truthiness (isFalsy, OP_NOT, OP_JUMP_IF_FALSE)\<close>

text \<open>\<open>value === 0\<close> holds of both zeros of IEEE-754.\<close>

definition isZero :: "64 word \<Rightarrow> bool" where
  "isZero w = (w = 0 \<or> w = 0x8000000000000000)"

definition isFalsy :: "VM \<Rightarrow> Value \<Rightarrow> bool" where
  "isFalsy vm v =
     (v = VNull \<or> v = VUndefined \<or> v = VBool False
      \<or> (case v of VNumber w \<Rightarrow> isZero w | _ \<Rightarrow> False)
      \<or> v = VString []
      \<or> (case v of VArray a \<Rightarrow> arrays vm a = [] | _ \<Rightarrow> False))"

definition OP_NOT :: "VM \<Rightarrow> (Escape \<times> VM) + (InterpretResult \<times> VM)" where
  "OP_NOT vm = andThen (pop vm) (\<lambda>(a, vm1). Inr (OK, push (VBool (isFalsy vm1 a)) vm1))"

definition OP_JUMP_IF_FALSE :: "VM \<Rightarrow> (Escape \<times> VM) + (InterpretResult \<times> VM)" where
  "OP_JUMP_IF_FALSE vm =
     withCurrentFrame vm (\<lambda>f. case readShort f vm of (offset, vm1) \<Rightarrow>
       andThen (peek 0 vm1) (\<lambda>(v, vm2).
         if isFalsy vm2 v
         then withCurrentFrame vm2 (\<lambda>g.
                Inr (OK, vm2\<lparr>frames := (frames vm2)(g := (frames vm2 g)\<lparr>ip := ip (frames vm2 g) + offset\<rparr>)\<rparr>))
         else Inr (OK, vm2)))"

section \<open>Host conversions\<close>

text \<open>JavaScript's own truthiness (\<open>!x\<close>, \<open>while (x)\<close>), which differs from \<open>isFalsy\<close>.\<close>

definition isNaN :: "64 word \<Rightarrow> bool" where
  "isNaN w = (w AND 0x7FF0000000000000 = 0x7FF0000000000000 \<and> w AND 0x000FFFFFFFFFFFFF \<noteq> 0)"

fun js_truthy :: "Value \<Rightarrow> bool" where
  "js_truthy VUndefined = False"
| "js_truthy VNull = False"
| "js_truthy (VBool b) = b"
| "js_truthy (VNumber w) = (\<not> isZero w \<and> \<not> isNaN w)"
| "js_truthy (VString s) = (s \<noteq> [])"
| "js_truthy v = True"

text \<open>
  \<open>String(v)\<close>. The language fixes it for \<open>undefined\<close>, null, the booleans and the
  strings. Every other conversion is the host's, a parameter: of a number to its
  decimal form, and of an object, for which the engine looks up \<open>toString\<close> and \<open>valueOf\<close>
  on the object and calls what it finds. That call can run any function the program has
  stored there, and the conversion throws a \<open>TypeError\<close> when neither gives a primitive
  value; so the host's part returns a string and a state, or is left with an exception.
\<close>

type_synonym Host = "VM \<Rightarrow> Value \<Rightarrow> (Escape \<times> VM) + (string \<times> VM)"

definition js_String :: "Host \<Rightarrow> VM \<Rightarrow> Value \<Rightarrow> (Escape \<times> VM) + (string \<times> VM)" where
  "js_String host vm v =
     (case v of
        VUndefined \<Rightarrow> Inr (''undefined'', vm)
      | VNull \<Rightarrow> Inr (''null'', vm)
      | VBool b \<Rightarrow> Inr (if b then ''true'' else ''false'', vm)
      | VString s \<Rightarrow> Inr (s, vm)
      | _ \<Rightarrow> host vm v)"

text \<open>
  What the engine's \<open>String\<close> does to a \<open>properties\<close> record, while \<open>Object.prototype\<close> is
  as the engine sets it up (ECMAScript, OrdinaryToPrimitive with the hint string).
  \<open>toString\<close> and then \<open>valueOf\<close> are looked up, as an own entry or else through the
  prototype, and called if they are functions; the first primitive result is converted.
  Of the values of this model only a host function can be called. The inherited
  \<open>toString\<close> gives "[object Object]"; the inherited \<open>valueOf\<close> gives the record itself,
  which is no primitive value. \<open>engineString\<close> is a host that is known on the records only.
\<close>

definition recordString :: "VM \<Rightarrow> addr \<Rightarrow> (Escape \<times> VM) + (string \<times> VM)" where
  "recordString vm a =
     (let entries = properties (objects vm a);
          inherits = (properties_proto (objects vm a) = ObjectPrototype);
          cannot = Inl (TypeError ''Cannot convert object to primitive value'', vm);
          byValueOf = (case map_of entries ''valueOf'' of
                         Some (VHostFunction f) \<Rightarrow> Inl (HostCall f, vm)
                       | _ \<Rightarrow> cannot)
      in case map_of entries ''toString'' of
           Some (VHostFunction f) \<Rightarrow> Inl (HostCall f, vm)
         | Some x \<Rightarrow> byValueOf
         | None \<Rightarrow> if inherits then Inr (''[object Object]'', vm) else byValueOf)"

definition engineString :: Host where
  "engineString vm v =
     (case v of VPropertiesOf a \<Rightarrow> recordString vm a | _ \<Rightarrow> Inl (HostCall ''String'', vm))"

text \<open>A natural number in a template string.\<close>

definition digit :: "nat \<Rightarrow> char" where
  "digit n = ''0123456789'' ! n"

function decimal :: "nat \<Rightarrow> string" where
  "decimal n = (if n < 10 then [digit n] else decimal (n div 10) @ [digit (n mod 10)])"
  by pat_completeness auto
termination
  by (relation "measure id") auto

declare decimal.simps [simp del]

section \<open>Allocation (the \<open>new\<close> expressions of the source)\<close>

definition newCallFrame :: "FunctionObject \<Rightarrow> nat \<Rightarrow> addr \<Rightarrow> VM \<Rightarrow> addr \<times> VM" where
  "newCallFrame fn base c vm =
     (nextAddr vm,
      vm\<lparr>frames := (frames vm)(nextAddr vm :=
              \<lparr>func = fn, ip = 0, stackBase = base, closure = c, asyncPromise = None\<rparr>),
         nextAddr := nextAddr vm + 1\<rparr>)"

text \<open>\<open>new PromiseV1(null, vm)\<close>.\<close>

definition newPromise :: "VM \<Rightarrow> addr \<times> VM" where
  "newPromise vm =
     (nextAddr vm,
      vm\<lparr>promises := (promises vm)(nextAddr vm :=
              \<lparr>state = PENDING, pvalue = VUndefined, reason = VUndefined,
               onFulfilledCallbacks = [], onRejectedCallbacks = []\<rparr>),
         nextAddr := nextAddr vm + 1\<rparr>)"

definition newGeneratorObject :: "addr \<Rightarrow> VM \<Rightarrow> addr \<times> VM" where
  "newGeneratorObject c vm =
     (nextAddr vm, vm\<lparr>generators := (generators vm)(nextAddr vm := c), nextAddr := nextAddr vm + 1\<rparr>)"

definition newObject :: "Value \<Rightarrow> VM \<Rightarrow> addr \<times> VM" where
  "newObject proto vm =
     (nextAddr vm,
      vm\<lparr>objects := (objects vm)(nextAddr vm := \<lparr>properties = [], properties_proto = ObjectPrototype, prototype = proto\<rparr>),
         nextAddr := nextAddr vm + 1\<rparr>)"

section \<open>Upvalues (closeUpvalues, OP_GET_UPVALUE, OP_SET_UPVALUE)\<close>

text \<open>
  The loop of \<open>closeUpvalues\<close> follows the \<open>next\<close> links of the open-upvalue list; on a
  list that loops back it need not end, so the result is optional.
\<close>

partial_function (option) closeUpvalues :: "int \<Rightarrow> VM \<Rightarrow> VM option" where
  "closeUpvalues lastStackLocation vm =
     (case openUpvalues vm of
        None \<Rightarrow> Some vm
      | Some u \<Rightarrow>
          if location (upvalueCells vm u) \<ge> lastStackLocation
          then closeUpvalues lastStackLocation
                 (vm\<lparr>upvalueCells := (upvalueCells vm)(u := (upvalueCells vm u)
                          \<lparr>location := -1, closed := stackRead vm (location (upvalueCells vm u))\<rparr>),
                     openUpvalues := nextUpvalue (upvalueCells vm u)\<rparr>)
          else Some vm)"

text \<open>\<open>vm.currentFrame.closure.upvalues[slot]\<close>; a slot past the end gives \<open>undefined\<close>,
  whose \<open>closed\<close> cannot be read.\<close>

definition upvalueAt :: "VM \<Rightarrow> nat \<Rightarrow> (addr \<Rightarrow> (Escape \<times> VM) + 'a) \<Rightarrow> (Escape \<times> VM) + 'a" where
  "upvalueAt vm slot k =
     withCurrentFrame vm (\<lambda>f.
       let ups = cl_upvalues (closures vm (closure (frames vm f)))
       in if slot < length ups then k (ups ! slot)
          else Inl (TypeError ''Cannot read properties of undefined (reading 'closed')'', vm))"

definition OP_GET_UPVALUE :: "VM \<Rightarrow> (Escape \<times> VM) + (InterpretResult \<times> VM)" where
  "OP_GET_UPVALUE vm =
     operand vm (\<lambda>slot vm1. upvalueAt vm1 slot (\<lambda>u.
       let upvalue = upvalueCells vm1 u
       in Inr (OK, push (if closed upvalue \<noteq> VNull then closed upvalue
                        else stackRead vm1 (location upvalue)) vm1)))"

definition OP_SET_UPVALUE :: "VM \<Rightarrow> (Escape \<times> VM) + (InterpretResult \<times> VM)" where
  "OP_SET_UPVALUE vm =
     operand vm (\<lambda>slot vm1. upvalueAt vm1 slot (\<lambda>u.
       if closed (upvalueCells vm1 u) \<noteq> VNull
       then andThen (peek 0 vm1) (\<lambda>(v, vm2).
              Inr (OK, vm2\<lparr>upvalueCells := (upvalueCells vm2)(u := (upvalueCells vm2 u)\<lparr>closed := v\<rparr>)\<rparr>))
       else andThen (peek 0 vm1) (\<lambda>(v, vm2).
              Inr (OK, stackWrite (location (upvalueCells vm2 u)) v vm2))))"

section \<open>OP_THROW\<close>

text \<open>
  \<open>vm.runtimeError(String(message))\<close>: the conversion comes first, and an exception it
  throws leaves the handler before any error is raised.
\<close>

definition OP_THROW :: "Host \<Rightarrow> VM \<Rightarrow> (Escape \<times> VM) + (InterpretResult \<times> VM)" where
  "OP_THROW host vm =
     andThen (pop vm) (\<lambda>(message, vm1).
       andThen (js_String host vm1 message) (\<lambda>(s, vm2).
         andThen (runtimeError (VString s) True vm2) (\<lambda>vm3.
           Inr (if hasError vm3 then RUNTIME_ERROR else OK, vm3))))"

section \<open>PromiseV1 (src/vm/PromiseV1.js)\<close>

text \<open>\<open>if (onFulfilled)\<close>: the arrow functions of the repository are objects, hence truthy.\<close>

fun handlerPresent :: "Handler \<Rightarrow> bool" where
  "handlerPresent (HValue v) = js_truthy v"
| "handlerPresent h = True"

text \<open>
  \<open>then\<close>: a new promise and the two callbacks closed over it. On a fulfilled or
  rejected promise the matching callback is scheduled as a microtask, which reads
  \<open>this.value\<close> or \<open>this.reason\<close> when it runs; on a pending promise each callback whose
  handler is present joins its list.
\<close>

definition promiseThen :: "addr \<Rightarrow> Handler \<Rightarrow> Handler \<Rightarrow> VM \<Rightarrow> addr \<times> VM" where
  "promiseThen p onFulfilled onRejected vm =
     (case newPromise vm of (np, vm1) \<Rightarrow>
        (let scheduleFulfillment = \<lparr>cb_handler = onFulfilled, cb_target = np\<rparr>;
             scheduleRejection = \<lparr>cb_handler = onRejected, cb_target = np\<rparr>;
             this = promises vm1 p
         in (np,
             case state this of
               FULFILLED \<Rightarrow> scheduleMicrotask (FulfillmentTask scheduleFulfillment p) vm1
             | REJECTED \<Rightarrow> scheduleMicrotask (RejectionTask scheduleRejection p) vm1
             | PENDING \<Rightarrow>
                 vm1\<lparr>promises := (promises vm1)(p := this
                   \<lparr>onFulfilledCallbacks :=
                      (if handlerPresent onFulfilled
                       then onFulfilledCallbacks this @ [scheduleFulfillment]
                       else onFulfilledCallbacks this),
                    onRejectedCallbacks :=
                      (if handlerPresent onRejected
                       then onRejectedCallbacks this @ [scheduleRejection]
                       else onRejectedCallbacks this)\<rparr>)\<rparr>)))"

text \<open>
  The settle routines call the registered callbacks, and a callback of an adopting
  promise calls a settle routine again. The calls that are still to be made are kept as
  a list of jobs, the next one first: a job is taken, and the calls it makes are put in
  front of the rest. \<open>JClearFulfilled\<close> and \<open>JClearRejected\<close> are the assignments
  \<open>this.onFulfilledCallbacks = []\<close> and \<open>this.onRejectedCallbacks = []\<close> that follow
  the \<open>forEach\<close>; \<open>JResolve\<close> is \<open>newPromise.resolve(...)\<close> once the handler has returned.
\<close>

datatype Job =
    JResolveInternal addr Value
  | JRejectInternal addr Value
  | JScheduleFulfillment Callback addr
  | JScheduleRejection Callback addr
  | JClearFulfilled addr
  | JClearRejected addr
  | JResolve addr Value

text \<open>
  The body of \<open>scheduleFulfillment\<close> (\<open>fulfilled\<close> true) and of \<open>scheduleRejection\<close>, called
  with \<open>x\<close>. Calling a truthy handler that is neither a closure nor a function throws a
  \<open>TypeError\<close>, which the surrounding \<open>catch\<close> turns into a rejection of \<open>newPromise\<close>.
\<close>

definition scheduleCallback ::
  "bool \<Rightarrow> Callback \<Rightarrow> Value \<Rightarrow> VM \<Rightarrow> (Escape \<times> VM) + (Job list \<times> VM)" where
  "scheduleCallback fulfilled cb x vm =
     (let newPromise = cb_target cb
      in case cb_handler cb of
           HValue h \<Rightarrow>
             if \<not> js_truthy h
             then Inr ([], if fulfilled then resolve newPromise x vm else reject newPromise x vm)
             else (case h of
                     VClosure c \<Rightarrow>
                       Inr ([], scheduleMicrotask (AsyncCallTask c (Some newPromise) [x]) vm)
                   | VHostFunction name \<Rightarrow> Inl (HostCall name, vm)
                   | _ \<Rightarrow>
                       Inr ([], reject newPromise
                              (VString (if fulfilled then ''onFulfilled is not a function''
                                        else ''onRejected is not a function'')) vm))
         | HAwaitFulfilled fr \<Rightarrow>
             Inr ([JResolve newPromise VUndefined], scheduleMicrotask (AwaitResumeTask fr x) vm)
         | HAwaitRejected fr \<Rightarrow>
             Inr ([JResolve newPromise VUndefined], scheduleMicrotask (AwaitRejectTask fr x) vm)
         | HAdoptResolve q \<Rightarrow> Inr ([JResolveInternal q x, JResolve newPromise VUndefined], vm)
         | HAdoptReject q \<Rightarrow> Inr ([JRejectInternal q x, JResolve newPromise VUndefined], vm))"

definition stepJob :: "Job \<Rightarrow> VM \<Rightarrow> (Escape \<times> VM) + (Job list \<times> VM)" where
  "stepJob job vm =
     (case job of
        JResolveInternal p v \<Rightarrow>
          if state (promises vm p) \<noteq> PENDING then Inr ([], vm)
          else (case v of
                  VPromise q \<Rightarrow>
                    Inr ([], snd (promiseThen q (HAdoptResolve p) (HAdoptReject p) vm))
                | _ \<Rightarrow>
                    Inr (map (\<lambda>cb. JScheduleFulfillment cb p) (onFulfilledCallbacks (promises vm p))
                           @ [JClearFulfilled p],
                         vm\<lparr>promises := (promises vm)(p := (promises vm p)
                              \<lparr>state := FULFILLED, pvalue := v\<rparr>)\<rparr>))
      | JRejectInternal p r \<Rightarrow>
          if state (promises vm p) \<noteq> PENDING then Inr ([], vm)
          else Inr (map (\<lambda>cb. JScheduleRejection cb p) (onRejectedCallbacks (promises vm p))
                      @ [JClearRejected p],
                    vm\<lparr>promises := (promises vm)(p := (promises vm p)
                         \<lparr>state := REJECTED, reason := r\<rparr>)\<rparr>)
      | JScheduleFulfillment cb p \<Rightarrow> scheduleCallback True cb (pvalue (promises vm p)) vm
      | JScheduleRejection cb p \<Rightarrow> scheduleCallback False cb (reason (promises vm p)) vm
      | JClearFulfilled p \<Rightarrow>
          Inr ([], vm\<lparr>promises := (promises vm)(p := (promises vm p)\<lparr>onFulfilledCallbacks := []\<rparr>)\<rparr>)
      | JClearRejected p \<Rightarrow>
          Inr ([], vm\<lparr>promises := (promises vm)(p := (promises vm p)\<lparr>onRejectedCallbacks := []\<rparr>)\<rparr>)
      | JResolve p v \<Rightarrow> Inr ([], resolve p v vm))"

text \<open>
  Running the jobs to the end. A chain of adopting promises is followed through the
  store, so the result is optional: \<open>None\<close> stands for a run that does not end.
\<close>

partial_function (option) settle :: "Job list \<Rightarrow> VM \<Rightarrow> ((Escape \<times> VM) + VM) option" where
  "settle jobs vm =
     (case jobs of
        [] \<Rightarrow> Some (Inr vm)
      | job # rest \<Rightarrow>
          (case stepJob job vm of
             Inl e \<Rightarrow> Some (Inl e)
           | Inr (calls, vm1) \<Rightarrow> settle (calls @ rest) vm1))"

definition resolveInternal :: "addr \<Rightarrow> Value \<Rightarrow> VM \<Rightarrow> ((Escape \<times> VM) + VM) option" where
  "resolveInternal p v vm = settle [JResolveInternal p v] vm"

definition rejectInternal :: "addr \<Rightarrow> Value \<Rightarrow> VM \<Rightarrow> ((Escape \<times> VM) + VM) option" where
  "rejectInternal p r vm = settle [JRejectInternal p r] vm"

text \<open>
  What a settled promise has for good: its state, value and reason. \<open>keeps p vm vm'\<close>
  says that they are the same in \<open>vm'\<close> as in \<open>vm\<close> (and that no address was given back).
  \<open>finalState\<close> is the state a run ends in, whether it returns or is left early.
  \<open>closureCallback (c, np)\<close> is the callback that \<open>then\<close> makes for the handler \<open>c\<close>, a
  closure of the running program, and its new promise \<open>np\<close>.
\<close>

definition outcomeOf :: "VM \<Rightarrow> addr \<Rightarrow> PromiseState \<times> Value \<times> Value" where
  "outcomeOf vm p = (state (promises vm p), pvalue (promises vm p), reason (promises vm p))"


definition keeps :: "addr \<Rightarrow> VM \<Rightarrow> VM \<Rightarrow> bool" where
  "keeps p vm vm' = (outcomeOf vm' p = outcomeOf vm p \<and> nextAddr vm \<le> nextAddr vm')"


section \<open>Microtasks and OP_AWAIT\<close>

text \<open>What a \<open>catch (e)\<close> of the source catches: the message of a thrown exception.\<close>

fun caught :: "Escape \<Rightarrow> string option" where
  "caught (TypeError m) = Some m"
| "caught (Thrown m) = Some m"
| "caught e = None"

definition popFrame :: "VM \<Rightarrow> VM" where
  "popFrame vm =
     (let fs = butlast (callFrames vm)
      in vm\<lparr>callFrames := fs, currentFrame := (if fs = [] then None else Some (last fs))\<rparr>)"

text \<open>
  The function tasks: the arrows of \<open>resolve\<close>, \<open>reject\<close> and \<open>then\<close>, and the two
  continuations of \<open>OP_AWAIT\<close>. The fulfilment continuation pushes the frame back, pops
  the top of the stack and pushes the resolved value; the rejection continuation pushes
  the frame back, raises the runtime error and pops the top frame again.
\<close>

definition runFunctionTask :: "Microtask \<Rightarrow> VM \<Rightarrow> ((Escape \<times> VM) + VM) option" where
  "runFunctionTask task vm =
     (case task of
        ResolveInternalTask p v \<Rightarrow> resolveInternal p v vm
      | RejectInternalTask p r \<Rightarrow> rejectInternal p r vm
      | FulfillmentTask cb p \<Rightarrow> settle [JScheduleFulfillment cb p] vm
      | RejectionTask cb p \<Rightarrow> settle [JScheduleRejection cb p] vm
      | AwaitResumeTask fr v \<Rightarrow>
          Some (andThen (pop (vm\<lparr>callFrames := callFrames vm @ [fr], currentFrame := Some fr\<rparr>))
                  (\<lambda>(awaited, vm1). Inr (push v vm1)))
      | AwaitRejectTask fr r \<Rightarrow>
          Some (andThen (runtimeError r True
                           (vm\<lparr>callFrames := callFrames vm @ [fr], currentFrame := Some fr\<rparr>))
                  (\<lambda>vm1. Inr (popFrame vm1)))
      | HostTask name \<Rightarrow> Some (Inl (HostCall name, vm))
      | AsyncCallTask c ap as \<Rightarrow> Some (Inr vm))"

text \<open>(An async call task is no function; \<open>runTask\<close> treats it before.)\<close>

text \<open>
  One round of the loop of \<open>runMicrotasks\<close>, the task already shifted off the queue. An
  async call task pushes the callee and the arguments and a frame that holds the task's
  promise; a function task runs inside \<open>try\<close>, and an exception it throws is raised as a
  runtime error with \<open>rejectPromise\<close> false.
\<close>

definition runTask :: "Microtask \<Rightarrow> VM \<Rightarrow> ((Escape \<times> VM) + VM) option" where
  "runTask task vm =
     (case task of
        AsyncCallTask c ap as \<Rightarrow>
          (let vm1 = vm\<lparr>stack := stack vm @ [VClosure c] @ as\<rparr>
           in case newCallFrame (cl_func (closures vm1 c)) (length (stack vm1) - 1 - length as) c vm1 of
                (fr, vm2) \<Rightarrow>
                  Some (Inr (vm2\<lparr>frames := (frames vm2)(fr := (frames vm2 fr)\<lparr>asyncPromise := ap\<rparr>),
                                callFrames := callFrames vm2 @ [fr]\<rparr>)))
      | _ \<Rightarrow>
          Option.bind (runFunctionTask task vm) (\<lambda>r.
            case r of
              Inr vm1 \<Rightarrow> Some (Inr vm1)
            | Inl (e, vm1) \<Rightarrow>
                (case caught e of
                   Some m \<Rightarrow> Some (andThen (runtimeError (VString (''Error in native microtask: '' @ m)) False vm1) Inr)
                 | None \<Rightarrow> Some (Inl (e, vm1)))))"

partial_function (option) runMicrotasks :: "VM \<Rightarrow> ((Escape \<times> VM) + VM) option" where
  "runMicrotasks vm =
     (case microtaskQueue vm of
        [] \<Rightarrow> Some (Inr vm)
      | task # rest \<Rightarrow>
          if hasError vm then Some (Inr vm)
          else Option.bind (runTask task (vm\<lparr>microtaskQueue := rest\<rparr>)) (\<lambda>r.
                 case r of Inl e \<Rightarrow> Some (Inl e) | Inr vm1 \<Rightarrow> runMicrotasks vm1))"

text \<open>
  \<open>OP_AWAIT\<close>. The dispatch loop runs a handler only while a frame is on the frame
  stack; without one \<open>callFrames.pop()\<close> would give \<open>undefined\<close> for the frame to
  resume, which the model reports as malformed.
\<close>

definition OP_AWAIT :: "VM \<Rightarrow> (Escape \<times> VM) + (InterpretResult \<times> VM)" where
  "OP_AWAIT vm =
     andThen (peek 0 vm) (\<lambda>(v, vm1).
       case v of
         VPromise promise \<Rightarrow>
           if callFrames vm1 = [] then Inl (Malformed, vm1)
           else
             (let frameToResume = last (callFrames vm1);
                  vm2 = vm1\<lparr>callFrames := butlast (callFrames vm1)\<rparr>;
                  vm3 = (if callFrames vm2 = [] then vm2\<lparr>currentFrame := None\<rparr> else vm2)
              in Inr (YIELD, snd (promiseThen promise (HAwaitFulfilled frameToResume)
                                    (HAwaitRejected frameToResume) vm3)))
       | _ \<Rightarrow> Inr (OK, vm1))"

section \<open>Calls: OP_CALL, OP_NEW\<close>

definition raise ::
  "string \<Rightarrow> VM \<Rightarrow> (Escape \<times> VM) + (InterpretResult \<times> VM)" where
  "raise message vm = andThen (runtimeError (VString message) True vm) (\<lambda>vm1. Inr (RUNTIME_ERROR, vm1))"

text \<open>
  \<open>new PromiseV1(executor, vm)\<close>. With null nothing more happens. A closure is scheduled
  with the two native objects \<open>resolve\<close> and \<open>reject\<close> as arguments; a host function is
  called at once; anything else is refused by a \<open>throw\<close>.
\<close>

definition newPromiseWithExecutor :: "Value \<Rightarrow> VM \<Rightarrow> (Escape \<times> VM) + (addr \<times> VM)" where
  "newPromiseWithExecutor executor vm =
     (case newPromise vm of (np, vm1) \<Rightarrow>
        (case executor of
           VNull \<Rightarrow> Inr (np, vm1)
         | VClosure c \<Rightarrow>
             Inr (np, scheduleMicrotask
                        (AsyncCallTask c None [VNativeObject (NativeResolve np),
                                               VNativeObject (NativeReject np)]) vm1)
         | VHostFunction name \<Rightarrow> Inl (HostCall name, vm1)
         | _ \<Rightarrow> Inl (Thrown ''Promise executor must be a VM function (Closure) or native JS function.'', vm1)))"

text \<open>\<open>typeof result !== 'undefined' ? result : null\<close> for a call that returns nothing.\<close>

definition callNative ::
  "NativeTarget \<Rightarrow> Value list \<Rightarrow> VM \<Rightarrow> (Escape \<times> VM) + (InterpretResult \<times> VM)" where
  "callNative target as vm =
     (case target of
        NativeResolve p \<Rightarrow> Inr (OK, push VNull (resolve p (js_get as 0) vm))
      | NativeReject p \<Rightarrow> Inr (OK, push VNull (reject p (js_get as 0) vm))
      | NativePromiseClass \<Rightarrow>
          if length as = 1
          then andThen (newPromiseWithExecutor (as ! 0) vm) (\<lambda>(np, vm1). Inr (OK, push (VPromise np) vm1))
          else if as = []
          then Inl (Thrown ''Promise executor must be a VM function (Closure) or native JS function.'', vm)
          else Inl (HostCall ''PromiseV1 constructed with a value in place of the VM'', vm)
      | NativeHost name \<Rightarrow> Inl (HostCall name, vm))"

definition OP_CALL :: "VM \<Rightarrow> (Escape \<times> VM) + (InterpretResult \<times> VM)" where
  "OP_CALL vm =
     operand vm (\<lambda>argCount vm1. andThen (peek argCount vm1) (\<lambda>(callee, vm2).
       case callee of
         VClosure c \<Rightarrow>
           (let fn = cl_func (closures vm2 c)
            in if fn_arity fn \<noteq> argCount
               then raise (''Expected '' @ decimal (fn_arity fn) @ '' arguments but got ''
                            @ decimal argCount @ ''.'') vm2
               else if length (callFrames vm2) = MAX_CALL_FRAMES vm2
               then raise ''Stack overflow.'' vm2
               else if fn_isGenerator fn
               then andThen (pop vm2) (\<lambda>(x, vm3).
                      case newGeneratorObject c (vm3\<lparr>stack := js_set_length (length (stack vm3) - argCount) (stack vm3)\<rparr>) of
                        (g, vm4) \<Rightarrow> Inr (OK, push (VGenerator g) vm4))
               else if fn_isAsync fn
               then (case newPromise vm2 of (promise, vm3) \<Rightarrow>
                      (let as = drop (length (stack vm3) - argCount) (stack vm3)
                       in andThen (pop vm3) (\<lambda>(x, vm4).
                            Inr (OK, push (VPromise promise)
                                  (scheduleMicrotask (AsyncCallTask c (Some promise) as)
                                    (vm4\<lparr>stack := js_set_length (length (stack vm4) - argCount) (stack vm4)\<rparr>))))))
               else (case newCallFrame fn (length (stack vm2) - argCount - 1) c vm2 of
                      (newFrame, vm3) \<Rightarrow>
                        Inr (OK, vm3\<lparr>callFrames := callFrames vm3 @ [newFrame],
                                    currentFrame := Some newFrame\<rparr>)))
       | VNativeObject target \<Rightarrow>
           (let as = drop (length (stack vm2) - argCount) (stack vm2)
            in andThen (pop (vm2\<lparr>stack := take (length (stack vm2) - argCount) (stack vm2)\<rparr>))
                 (\<lambda>(x, vm3). callNative target as vm3))
       | VHostFunction name \<Rightarrow>
           andThen (pop (vm2\<lparr>stack := take (length (stack vm2) - argCount) (stack vm2)\<rparr>))
             (\<lambda>(x, vm3). Inl (HostCall name, vm3))
       | _ \<Rightarrow> raise ''Can only call functions and classes.'' vm2))"

text \<open>\<open>if (!closure.prototype) closure.prototype = {properties: {}, prototype: null}\<close>.\<close>

definition ensurePrototype :: "addr \<Rightarrow> VM \<Rightarrow> VM" where
  "ensurePrototype c vm =
     (if js_truthy (cl_prototype (closures vm c)) then vm
      else (case newObject VNull vm of
              (a, vm1) \<Rightarrow> vm1\<lparr>closures := (closures vm1)(c := (closures vm1 c)\<lparr>cl_prototype := VObject a\<rparr>)\<rparr>))"

definition OP_NEW :: "VM \<Rightarrow> (Escape \<times> VM) + (InterpretResult \<times> VM)" where
  "OP_NEW vm =
     operand vm (\<lambda>argCount vm1. andThen (peek argCount vm1) (\<lambda>(constructor, vm2).
       case constructor of
         VNativeObject NativePromiseClass \<Rightarrow>
           if argCount = 1
           then andThen (pop vm2) (\<lambda>(executor, vm3). andThen (pop vm3) (\<lambda>(x, vm4).
                  if (case executor of VHostFunction name \<Rightarrow> False | VClosure c \<Rightarrow> False | _ \<Rightarrow> True)
                  then raise ''Promise constructor expects a function.'' vm4
                  else andThen (newPromiseWithExecutor executor vm4)
                         (\<lambda>(promise, vm5). Inr (OK, push (VPromise promise) vm5))))
           else raise ''Promise constructor expects exactly one argument.'' vm2
       | VClosure c \<Rightarrow>
           (let vm3 = ensurePrototype c vm2
            in case newObject (cl_prototype (closures vm3 c)) vm3 of
                 (instance, vm4) \<Rightarrow>
                   (let vm5 = stackWrite (int (length (stack vm4)) - 1 - int argCount) (VObject instance) vm4;
                        frameBase = length (stack vm5) - 1 - argCount
                    in case newCallFrame (cl_func (closures vm5 c)) frameBase c vm5 of
                         (constructorFrame, vm6) \<Rightarrow>
                           Inr (OK, vm6\<lparr>callFrames := callFrames vm6 @ [constructorFrame],
                                       currentFrame := Some constructorFrame\<rparr>)))
       | _ \<Rightarrow> raise ''Can only instantiate a class (closure).'' vm2))"

section \<open>Property lookup: OP_GET_PROPERTY_PROTO, OP_CALL_METHOD\<close>

text \<open>
  The names every plain JavaScript object inherits from \<open>Object.prototype\<close> (all
  functions, and the accessor \<open>__proto__\<close>) are host knowledge.
\<close>

definition ObjectPrototypeFunctions :: "string list" where
  "ObjectPrototypeFunctions =
     [''constructor'', ''__defineGetter__'', ''__defineSetter__'', ''hasOwnProperty'',
      ''__lookupGetter__'', ''__lookupSetter__'', ''isPrototypeOf'', ''propertyIsEnumerable'',
      ''toString'', ''valueOf'', ''toLocaleString'']"

datatype Lookup = Found Value | NotFound | Leaves Escape

text \<open>
  \<open>x.properties.hasOwnProperty(name)\<close>, where \<open>x\<close> is the variable \<open>who\<close> of the handler. The
  function called is an own entry \<open>hasOwnProperty\<close> of the record if there is one, and
  else the one the record inherits from \<open>Object.prototype\<close>; a record whose prototype
  was removed inherits none, and the call throws.
\<close>

definition hasOwnPropertyCall :: "string \<Rightarrow> VMObject \<Rightarrow> string \<Rightarrow> Escape + bool" where
  "hasOwnPropertyCall who obj n =
     (case map_of (properties obj) ''hasOwnProperty'' of
        Some (VHostFunction f) \<Rightarrow> Inl (HostCall f)
      | Some h \<Rightarrow> Inl (TypeError (who @ ''.properties.hasOwnProperty is not a function''))
      | None \<Rightarrow>
          (case properties_proto obj of
             ObjectPrototype \<Rightarrow> Inr (map_of (properties obj) n \<noteq> None)
           | NullPrototype \<Rightarrow>
               Inl (TypeError (who @ ''.properties.hasOwnProperty is not a function''))))"

text \<open>
  The loop \<open>while (current) { if (current.properties && current.properties.hasOwnProperty(name))
  ...; current = current.prototype; }\<close> of \<open>OP_CALL_METHOD\<close>, and the same loop with the
  variable \<open>currentObject\<close> of \<open>OP_GET_PROPERTY_PROTO\<close>. A primitive value has neither
  field. The walk follows \<open>prototype\<close> links through the store and need not end on a
  chain that loops back, so the result is optional.
\<close>

partial_function (option) protoWalk :: "VM \<Rightarrow> string \<Rightarrow> string \<Rightarrow> Value \<Rightarrow> Lookup option" where
  "protoWalk vm who name current =
     (if \<not> js_truthy current then Some NotFound
      else
        (case current of
           VObject a \<Rightarrow>
             (case hasOwnPropertyCall who (objects vm a) name of
                Inl e \<Rightarrow> Some (Leaves e)
              | Inr has \<Rightarrow>
                  if has
                  then Some (Found (case map_of (properties (objects vm a)) name of
                                      Some v \<Rightarrow> v | None \<Rightarrow> VUndefined))
                  else protoWalk vm who name (prototype (objects vm a)))
         | VBool b \<Rightarrow> Some NotFound
         | VNumber w \<Rightarrow> Some NotFound
         | VString s \<Rightarrow> Some NotFound
         | _ \<Rightarrow> Some (Leaves (HostCall ''a property of an object that is no VM object''))))"

definition constantName :: "VM \<Rightarrow> addr \<Rightarrow> nat \<Rightarrow> string option" where
  "constantName vm f i =
     (case js_get (fn_constants (func (frames vm f))) i of VString s \<Rightarrow> Some s | _ \<Rightarrow> None)"

definition nameOperand ::
  "VM \<Rightarrow> (string \<Rightarrow> VM \<Rightarrow> (Escape \<times> VM) + 'a) \<Rightarrow> (Escape \<times> VM) + 'a" where
  "nameOperand vm k =
     operand vm (\<lambda>i vm1. withCurrentFrame vm1 (\<lambda>f.
       case constantName vm1 f i of None \<Rightarrow> Inl (Malformed, vm1) | Some name \<Rightarrow> k name vm1))"

text \<open>
  \<open>OP_GET_PROPERTY_PROTO\<close>. After the tests for null and for a native object comes
  \<open>typeof object === 'object' && propName in object\<close>, which the source marks
  "Plain JS objects"; a VM object passes it for its two fields and for the inherited
  names. Only then comes the walk along the prototype chain.
\<close>

definition OP_GET_PROPERTY_PROTO :: "VM \<Rightarrow> ((Escape \<times> VM) + (InterpretResult \<times> VM)) option" where
  "OP_GET_PROPERTY_PROTO vm =
     (case nameOperand vm (\<lambda>propName vm1. andThen (pop vm1) (\<lambda>(object, vm2). Inr (propName, object, vm2))) of
        Inl e \<Rightarrow> Some (Inl e)
      | Inr (propName, object, vm2) \<Rightarrow>
          (case object of
             VNull \<Rightarrow>
               Some (raise (''Cannot read property '' @ [CHR 0x27] @ propName @ [CHR 0x27]
                              @ '' of null or undefined.'') vm2)
           | VUndefined \<Rightarrow>
               Some (raise (''Cannot read property '' @ [CHR 0x27] @ propName @ [CHR 0x27]
                              @ '' of null or undefined.'') vm2)
           | VNativeObject target \<Rightarrow> Some (Inl (HostCall ''getProperty'', vm2))
           | VObject a \<Rightarrow>
               if propName = ''properties'' then Some (Inr (OK, push (VPropertiesOf a) vm2))
               else if propName = ''prototype'' then Some (Inr (OK, push (prototype (objects vm2 a)) vm2))
               else if propName \<in> set ObjectPrototypeFunctions
               then Some (Inr (OK, push (VHostFunction (''Object.prototype.'' @ propName)) vm2))
               else if propName = ''__proto__''
               then Some (Inr (OK, push (VHostObject ''Object.prototype'') vm2))
               else Option.bind (protoWalk vm2 ''currentObject'' propName object) (\<lambda>r.
                      case r of
                        Found v \<Rightarrow> Some (Inr (OK, push v vm2))
                      | NotFound \<Rightarrow> Some (Inr (OK, push VUndefined vm2))
                      | Leaves e \<Rightarrow> Some (Inl (e, vm2)))
           | VBool b \<Rightarrow> Some (Inr (OK, push VUndefined vm2))
           | VNumber w \<Rightarrow> Some (Inr (OK, push VUndefined vm2))
           | VString s \<Rightarrow> Some (Inr (OK, push VUndefined vm2))
           | _ \<Rightarrow> Some (Inl (HostCall ''a property of an object that is no VM object'', vm2))))"

text \<open>
  The methods of a \<open>PromiseV1\<close> receiver, called inside \<open>try\<close>: an exception becomes a
  runtime error. \<open>constructor\<close> is the class \<open>PromiseV1\<close>, which the engine refuses to
  call without \<open>new\<close>; the other functions inherited from \<open>Object.prototype\<close> are the
  host's. A name that is no function of the promise falls through to the final error
  of the handler.
\<close>

definition callPromiseMethod ::
  "addr \<Rightarrow> string \<Rightarrow> Value list \<Rightarrow> VM \<Rightarrow> ((Escape \<times> VM) + (InterpretResult \<times> VM)) option" where
  "callPromiseMethod p methodName as vm =
     (let notFound = raise (''Method '' @ [CHR 0x27] @ methodName @ [CHR 0x27]
                              @ '' not found or not callable on instance.'') vm;
          returned = (\<lambda>r. case r of
                       Inr vm1 \<Rightarrow> Inr (OK, push VNull vm1)
                     | Inl (e, vm1) \<Rightarrow>
                         (case caught e of
                            Some m \<Rightarrow> raise (''Promise method '' @ [CHR 0x27] @ methodName @ [CHR 0x27]
                                              @ '' error: '' @ m) vm1
                          | None \<Rightarrow> Inl (e, vm1)))
      in if methodName = ''then''
         then (case promiseThen p (HValue (js_get as 0)) (HValue (js_get as 1)) vm of
                 (np, vm1) \<Rightarrow> Some (Inr (OK, push (VPromise np) vm1)))
         else if methodName = ''resolve'' then Some (Inr (OK, push VNull (resolve p (js_get as 0) vm)))
         else if methodName = ''reject'' then Some (Inr (OK, push VNull (reject p (js_get as 0) vm)))
         else if methodName = ''_resolveInternal''
         then map_option returned (resolveInternal p (js_get as 0) vm)
         else if methodName = ''_rejectInternal''
         then map_option returned (rejectInternal p (js_get as 0) vm)
         else if methodName = ''constructor''
         then Some (raise (''Promise method 'constructor' error: ''
                            @ ''Class constructor PromiseV1 cannot be invoked without ''
                            @ [CHR 0x27] @ ''new'' @ [CHR 0x27]) vm)
         else if methodName \<in> set ObjectPrototypeFunctions
         then Some (Inl (HostCall (''Object.prototype.'' @ methodName), vm))
         else Some notFound)"

text \<open>
  A closure found on the prototype chain is called with the receiver in slot 0. The
  source tests the arity, then the async and the generator flag, and otherwise pushes
  the frame.
\<close>

definition callMethodClosure ::
  "addr \<Rightarrow> string \<Rightarrow> Value \<Rightarrow> nat \<Rightarrow> Value list \<Rightarrow> VM
     \<Rightarrow> (Escape \<times> VM) + (InterpretResult \<times> VM)" where
  "callMethodClosure m methodName receiver argCount as vm =
     (let fn = cl_func (closures vm m)
      in if argCount \<noteq> fn_arity fn
         then raise (''Expected '' @ decimal (fn_arity fn) @ '' args for method '' @ [CHR 0x27]
                      @ methodName @ [CHR 0x27] @ '' but got '' @ decimal argCount @ ''.'') vm
         else if fn_isAsync fn
         then (case newPromise vm of (promise, vm1) \<Rightarrow>
                 Inr (OK, push (VPromise promise)
                            (scheduleMicrotask (AsyncCallTask m (Some promise) as) vm1)))
         else if fn_isGenerator fn
         then (case newGeneratorObject m vm of (g, vm1) \<Rightarrow> Inr (OK, push (VGenerator g) vm1))
         else
           (let newFrameBase = length (stack vm);
                vm1 = vm\<lparr>stack := stack vm @ [receiver] @ as\<rparr>
            in case newCallFrame fn newFrameBase m vm1 of
                 (newFrame, vm2) \<Rightarrow>
                   Inr (OK, vm2\<lparr>callFrames := callFrames vm2 @ [newFrame],
                               currentFrame := Some newFrame\<rparr>)))"

definition OP_CALL_METHOD :: "VM \<Rightarrow> ((Escape \<times> VM) + (InterpretResult \<times> VM)) option" where
  "OP_CALL_METHOD vm =
     (case nameOperand vm (\<lambda>methodName vm1. operand vm1 (\<lambda>argCount vm2.
             andThen (peek argCount vm2) (\<lambda>(receiver, vm3). Inr (methodName, argCount, receiver, vm3)))) of
        Inl e \<Rightarrow> Some (Inl e)
      | Inr (methodName, argCount, receiver, vm3) \<Rightarrow>
          if receiver = VNull \<or> receiver = VUndefined
          then Some (raise (''Cannot read properties of null or undefined (calling method ''
                             @ [CHR 0x27] @ methodName @ [CHR 0x27] @ '').'') vm3)
          else
            (let as = drop (length (stack vm3) - argCount) (stack vm3);
                 vm4 = vm3\<lparr>stack := js_set_length (length (stack vm3) - (argCount + 1)) (stack vm3)\<rparr>;
                 notFound = raise (''Method '' @ [CHR 0x27] @ methodName @ [CHR 0x27]
                                     @ '' not found or not callable on instance.'') vm4
             in case receiver of
                  VNativeObject target \<Rightarrow> Some (Inl (HostCall ''getProperty'', vm4))
                | VPromise p \<Rightarrow> callPromiseMethod p methodName as vm4
                | VObject a \<Rightarrow>
                    if methodName \<in> set ObjectPrototypeFunctions
                    then Some (Inl (HostCall (''Object.prototype.'' @ methodName), vm4))
                    else Option.bind (protoWalk vm4 ''current'' methodName receiver) (\<lambda>r.
                           case r of
                             Found (VClosure m) \<Rightarrow>
                               Some (callMethodClosure m methodName receiver argCount as vm4)
                           | Found v \<Rightarrow> Some notFound
                           | NotFound \<Rightarrow> Some notFound
                           | Leaves e \<Rightarrow> Some (Inl (e, vm4)))
                | VBool b \<Rightarrow> Some notFound
                | VNumber w \<Rightarrow> Some notFound
                | VString s \<Rightarrow> Some notFound
                | VHostFunction name \<Rightarrow> Some notFound
                | _ \<Rightarrow> Some (Inl (HostCall ''a method of an object that is no VM object'', vm4))))"

section \<open>The dispatch loop (VM.run) and the event loop (VM.interpret)\<close>

text \<open>The numbers of the instructions (src/opcodes.js) whose handlers are part of this model.\<close>

definition Op_CONSTANT :: nat where "Op_CONSTANT = 0x00"
definition Op_PUSH_NULL :: nat where "Op_PUSH_NULL = 0x01"
definition Op_POP :: nat where "Op_POP = 0x04"
definition Op_NOT :: nat where "Op_NOT = 0x21"
definition Op_GET_GLOBAL :: nat where "Op_GET_GLOBAL = 0x30"
definition Op_DEFINE_GLOBAL :: nat where "Op_DEFINE_GLOBAL = 0x3C"
definition Op_GET_LOCAL :: nat where "Op_GET_LOCAL = 0x32"
definition Op_SET_LOCAL :: nat where "Op_SET_LOCAL = 0x33"
definition Op_GET_UPVALUE :: nat where "Op_GET_UPVALUE = 0x34"
definition Op_SET_UPVALUE :: nat where "Op_SET_UPVALUE = 0x35"
definition Op_JUMP_IF_FALSE :: nat where "Op_JUMP_IF_FALSE = 0x41"
definition Op_THROW :: nat where "Op_THROW = 0x52"
definition Op_CALL :: nat where "Op_CALL = 0x60"
definition Op_RETURN :: nat where "Op_RETURN = 0x61"
definition Op_CLOSURE :: nat where "Op_CLOSURE = 0x62"
definition Op_AWAIT :: nat where "Op_AWAIT = 0x6A"
definition Op_GET_NATIVE :: nat where "Op_GET_NATIVE = 0x70"
definition Op_CALL_METHOD :: nat where "Op_CALL_METHOD = 0x71"
definition Op_GET_PROPERTY_PROTO :: nat where "Op_GET_PROPERTY_PROTO = 0x86"
definition Op_SET_PROPERTY_PROTO :: nat where "Op_SET_PROPERTY_PROTO = 0x87"
definition Op_GET_PROTOTYPE :: nat where "Op_GET_PROTOTYPE = 0x90"
definition Op_NEW :: nat where "Op_NEW = 0x91"
definition Op_NEW_OBJECT :: nat where "Op_NEW_OBJECT = 0x83"

text \<open>Every instruction for which \<open>InstructionHandlers\<close> has an entry.\<close>

definition InstructionHandlers_keys :: "nat list" where
  "InstructionHandlers_keys =
     [0x00, 0x01, 0x02, 0x03, 0x04, 0x05,
      0x10, 0x11, 0x12, 0x13, 0x14, 0x15, 0x16, 0x17, 0x18, 0x19, 0x1A, 0x1B,
      0x20, 0x21,
      0x30, 0x31, 0x3C, 0x32, 0x33, 0x34, 0x35, 0x36, 0x37, 0x38, 0x39, 0x3A, 0x3B,
      0x40, 0x41, 0x42,
      0x50, 0x51, 0x52,
      0x60, 0x61, 0x62, 0x63,
      0x69, 0x6A,
      0x70, 0x71, 0x72,
      0x80, 0x81, 0x82, 0x83, 0x86, 0x87, 0x88,
      0x90, 0x91, 0x92, 0x93]"

definition OP_CONSTANT :: "VM \<Rightarrow> (Escape \<times> VM) + (InterpretResult \<times> VM)" where
  "OP_CONSTANT vm =
     operand vm (\<lambda>constantIndex vm1. withCurrentFrame vm1 (\<lambda>f.
       Inr (OK, push (js_get (fn_constants (func (frames vm1 f))) constantIndex) vm1)))"

definition OP_PUSH_NULL :: "VM \<Rightarrow> (Escape \<times> VM) + (InterpretResult \<times> VM)" where
  "OP_PUSH_NULL vm = Inr (OK, push VNull vm)"

definition OP_POP :: "VM \<Rightarrow> (Escape \<times> VM) + (InterpretResult \<times> VM)" where
  "OP_POP vm = andThen (pop vm) (\<lambda>(v, vm1). Inr (OK, vm1))"

definition OP_GET_GLOBAL :: "VM \<Rightarrow> (Escape \<times> VM) + (InterpretResult \<times> VM)" where
  "OP_GET_GLOBAL vm =
     nameOperand vm (\<lambda>name vm1.
       case globals vm1 name of
         None \<Rightarrow> raise (''Undefined variable '' @ [CHR 0x27] @ name @ [CHR 0x27] @ ''.'') vm1
       | Some v \<Rightarrow> Inr (OK, push v vm1))"

definition OP_DEFINE_GLOBAL :: "VM \<Rightarrow> (Escape \<times> VM) + (InterpretResult \<times> VM)" where
  "OP_DEFINE_GLOBAL vm =
     nameOperand vm (\<lambda>name vm1. andThen (peek 0 vm1) (\<lambda>(v, vm2).
       Inr (OK, vm2\<lparr>globals := (globals vm2)(name \<mapsto> v)\<rparr>)))"

definition OP_GET_LOCAL :: "VM \<Rightarrow> (Escape \<times> VM) + (InterpretResult \<times> VM)" where
  "OP_GET_LOCAL vm =
     operand vm (\<lambda>slot vm1. withCurrentFrame vm1 (\<lambda>f.
       Inr (OK, push (stackRead vm1 (int (stackBase (frames vm1 f) + slot))) vm1)))"

definition OP_SET_LOCAL :: "VM \<Rightarrow> (Escape \<times> VM) + (InterpretResult \<times> VM)" where
  "OP_SET_LOCAL vm =
     operand vm (\<lambda>slot vm1. withCurrentFrame vm1 (\<lambda>f. andThen (peek 0 vm1) (\<lambda>(v, vm2).
       Inr (OK, stackWrite (int (stackBase (frames vm2 f) + slot)) v vm2))))"

text \<open>
  \<open>OP_RETURN\<close>. Whether the frame stack is empty afterwards or not, the stack is cut back
  to the base of the frame and the result is pushed.
\<close>

definition OP_RETURN :: "VM \<Rightarrow> ((Escape \<times> VM) + (InterpretResult \<times> VM)) option" where
  "OP_RETURN vm =
     (case pop vm of
        Inl e \<Rightarrow> Some (Inl e)
      | Inr (result, vm1) \<Rightarrow>
          if callFrames vm1 = []
          then Some (Inl (TypeError ''Cannot read properties of undefined (reading 'func')'', vm1))
          else
            (let frame = frames vm1 (last (callFrames vm1));
                 vm2 = (case asyncPromise frame of
                          Some p \<Rightarrow> if fn_isAsync (func frame) then resolve p result vm1 else vm1
                        | None \<Rightarrow> vm1)
             in case closeUpvalues (int (stackBase frame)) vm2 of
                  None \<Rightarrow> None
                | Some vm3 \<Rightarrow>
                    Some (Inr (OK, push result
                      (vm3\<lparr>callFrames := butlast (callFrames vm3),
                           stack := js_set_length (stackBase frame) (stack vm3)\<rparr>)))))"

definition OP_GET_PROTOTYPE :: "VM \<Rightarrow> (Escape \<times> VM) + (InterpretResult \<times> VM)" where
  "OP_GET_PROTOTYPE vm =
     andThen (peek 0 vm) (\<lambda>(closure, vm1).
       case closure of
         VClosure c \<Rightarrow>
           andThen (pop (ensurePrototype c vm1)) (\<lambda>(x, vm2).
             Inr (OK, push (cl_prototype (closures vm2 c)) vm2))
       | _ \<Rightarrow> raise ''Can only get the prototype of functions/classes.'' vm1)"

text \<open>
  \<open>record[name] = value\<close> on a \<open>properties\<close> record. An own entry is overwritten. A new
  name becomes an own entry, except \<open>__proto__\<close> while the record inherits the accessor
  of that name from \<open>Object.prototype\<close>: its setter makes null the prototype of the
  record, ignores a primitive value, and with an object takes the record out of this model.
\<close>

definition setOwn :: "string \<Rightarrow> Value \<Rightarrow> (string \<times> Value) list \<Rightarrow> (string \<times> Value) list" where
  "setOwn n v ps =
     (if map_of ps n \<noteq> None then map (\<lambda>(k, x). if k = n then (k, v) else (k, x)) ps
      else ps @ [(n, v)])"

definition isPrimitive :: "Value \<Rightarrow> bool" where
  "isPrimitive v =
     (case v of VUndefined \<Rightarrow> True | VNull \<Rightarrow> True | VBool b \<Rightarrow> True | VNumber w \<Rightarrow> True
      | VString s \<Rightarrow> True | _ \<Rightarrow> False)"

definition recordAssign :: "string \<Rightarrow> Value \<Rightarrow> VMObject \<Rightarrow> Escape + VMObject" where
  "recordAssign n v obj =
     (if map_of (properties obj) n \<noteq> None \<or> n \<noteq> ''__proto__''
         \<or> properties_proto obj = NullPrototype
      then Inr (obj\<lparr>properties := setOwn n v (properties obj)\<rparr>)
      else if v = VNull then Inr (obj\<lparr>properties_proto := NullPrototype\<rparr>)
      else if isPrimitive v then Inr obj
      else Inl (HostCall ''set Object.prototype.__proto__''))"

text \<open>
  \<open>OP_SET_PROPERTY_PROTO\<close>. A host function is no \<open>object\<close> for \<open>typeof\<close>, nor is a
  primitive value. On every other object that is no VM object the handler creates or
  uses a field \<open>properties\<close> of that object, which the stores of this model do not have.
\<close>

definition OP_SET_PROPERTY_PROTO :: "VM \<Rightarrow> (Escape \<times> VM) + (InterpretResult \<times> VM)" where
  "OP_SET_PROPERTY_PROTO vm =
     nameOperand vm (\<lambda>propName vm1. andThen (pop vm1) (\<lambda>(v, vm2). andThen (pop vm2) (\<lambda>(object, vm3).
       case object of
         VNativeObject target \<Rightarrow> Inl (HostCall ''setProperty'', vm3)
       | VObject a \<Rightarrow>
           (case recordAssign propName v (objects vm3 a) of
              Inl e \<Rightarrow> Inl (e, vm3)
            | Inr obj \<Rightarrow> Inr (OK, push v (vm3\<lparr>objects := (objects vm3)(a := obj)\<rparr>)))
       | _ \<Rightarrow>
           if isPrimitive object \<or> (case object of VHostFunction f \<Rightarrow> True | _ \<Rightarrow> False)
           then raise (''Cannot set property '' @ [CHR 0x27] @ propName @ [CHR 0x27]
                        @ '' on a non-object.'') vm3
           else Inl (Unmodelled Op_SET_PROPERTY_PROTO, vm3))))"

text \<open>
  \<open>OP_NEW_OBJECT\<close>: the loop pops a value and a key \<open>count\<close> times and assigns to the
  record of the new object; a key that is no string is converted as \<open>String\<close> converts.
\<close>

fun newObjectEntries ::
  "Host \<Rightarrow> nat \<Rightarrow> VMObject \<Rightarrow> VM \<Rightarrow> (Escape \<times> VM) + (VMObject \<times> VM)" where
  "newObjectEntries host 0 obj vm = Inr (obj, vm)"
| "newObjectEntries host (Suc n) obj vm =
     andThen (pop vm) (\<lambda>(v, vm1). andThen (pop vm1) (\<lambda>(k, vm2).
       andThen (js_String host vm2 k) (\<lambda>(s, vm3).
         case recordAssign s v obj of
           Inl e \<Rightarrow> Inl (e, vm3)
         | Inr obj1 \<Rightarrow> newObjectEntries host n obj1 vm3)))"

definition OP_NEW_OBJECT :: "Host \<Rightarrow> VM \<Rightarrow> (Escape \<times> VM) + (InterpretResult \<times> VM)" where
  "OP_NEW_OBJECT host vm =
     operand vm (\<lambda>count vm1.
       andThen (newObjectEntries host count
                  \<lparr>properties = [], properties_proto = ObjectPrototype, prototype = VNull\<rparr> vm1)
         (\<lambda>(obj, vm2). Inr (OK, push (VObject (nextAddr vm2))
            (vm2\<lparr>objects := (objects vm2)(nextAddr vm2 := obj), nextAddr := nextAddr vm2 + 1\<rparr>))))"

text \<open>
  \<open>InstructionHandlers[instruction](vm)\<close>. Past the end of the bytecode \<open>readByte\<close> gives
  \<open>undefined\<close>, for which there is no handler, as for a number that is no instruction.
  An instruction whose handler is not part of this model ends the run with \<open>Unmodelled\<close>.
\<close>

definition dispatch ::
  "Host \<Rightarrow> nat option \<Rightarrow> VM \<Rightarrow> ((Escape \<times> VM) + (InterpretResult \<times> VM)) option" where
  "dispatch host instruction vm =
     (case instruction of
        None \<Rightarrow> Some (raise ''Unknown opcode: undefined'' vm)
      | Some i \<Rightarrow>
          if i \<notin> set InstructionHandlers_keys then Some (raise (''Unknown opcode: '' @ decimal i) vm)
          else if i = Op_CONSTANT then Some (OP_CONSTANT vm)
          else if i = Op_PUSH_NULL then Some (OP_PUSH_NULL vm)
          else if i = Op_POP then Some (OP_POP vm)
          else if i = Op_NOT then Some (OP_NOT vm)
          else if i = Op_GET_GLOBAL then Some (OP_GET_GLOBAL vm)
          else if i = Op_DEFINE_GLOBAL then Some (OP_DEFINE_GLOBAL vm)
          else if i = Op_GET_LOCAL then Some (OP_GET_LOCAL vm)
          else if i = Op_SET_LOCAL then Some (OP_SET_LOCAL vm)
          else if i = Op_GET_UPVALUE then Some (OP_GET_UPVALUE vm)
          else if i = Op_SET_UPVALUE then Some (OP_SET_UPVALUE vm)
          else if i = Op_JUMP_IF_FALSE then Some (OP_JUMP_IF_FALSE vm)
          else if i = Op_THROW then Some (OP_THROW host vm)
          else if i = Op_CALL then Some (OP_CALL vm)
          else if i = Op_RETURN then OP_RETURN vm
          else if i = Op_AWAIT then Some (OP_AWAIT vm)
          else if i = Op_CALL_METHOD then OP_CALL_METHOD vm
          else if i = Op_GET_PROPERTY_PROTO then OP_GET_PROPERTY_PROTO vm
          else if i = Op_SET_PROPERTY_PROTO then Some (OP_SET_PROPERTY_PROTO vm)
          else if i = Op_NEW_OBJECT then Some (OP_NEW_OBJECT host vm)
          else if i = Op_GET_PROTOTYPE then Some (OP_GET_PROTOTYPE vm)
          else if i = Op_NEW then Some (OP_NEW vm)
          else Some (Inl (Unmodelled i, vm)))"

text \<open>
  \<open>run\<close>: until an error is flagged, the frame stack is empty or a handler yields. What
  a handler returns is looked at only for \<open>YIELD\<close>; an error that a \<open>catch\<close> block takes
  leaves \<open>hasError\<close> false, and the loop goes on.
\<close>

partial_function (option) run ::
  "Host \<Rightarrow> VM \<Rightarrow> ((Escape \<times> VM) + (InterpretResult \<times> VM)) option" where
  "run host vm =
     (if hasError vm then Some (Inr (RUNTIME_ERROR, vm))
      else if callFrames vm = [] then Some (Inr (OK, vm))
      else
        (let f = last (callFrames vm)
         in case readByte f (vm\<lparr>currentFrame := Some f\<rparr>) of
              (instruction, vm1) \<Rightarrow>
                Option.bind (dispatch host instruction vm1) (\<lambda>r.
                  case r of
                    Inl e \<Rightarrow> Some (Inl e)
                  | Inr (result, vm2) \<Rightarrow>
                      if result = YIELD then Some (Inr (YIELD, vm2))
                      else if hasError vm2 then Some (Inr (RUNTIME_ERROR, vm2))
                      else run host vm2)))"

text \<open>
  The loop of \<open>interpret\<close>. When the machine is idle and host operations are pending the
  source waits for a timer of the host, which is where the model stops.
\<close>

partial_function (option) eventLoop ::
  "Host \<Rightarrow> VM \<Rightarrow> ((Escape \<times> VM) + VM) option" where
  "eventLoop host vm =
     (if callFrames vm \<noteq> [] \<or> microtaskQueue vm \<noteq> [] \<or> pendingHostOps vm > 0
      then
        if hasError vm then Some (Inr vm)
        else Option.bind (runMicrotasks vm) (\<lambda>r.
          case r of
            Inl e \<Rightarrow> Some (Inl e)
          | Inr vm1 \<Rightarrow>
              Option.bind (if callFrames vm1 \<noteq> [] then run host vm1 else Some (Inr (OK, vm1))) (\<lambda>r2.
                case r2 of
                  Inl e \<Rightarrow> Some (Inl e)
                | Inr (result, vm2) \<Rightarrow>
                    if callFrames vm1 \<noteq> [] \<and> result \<noteq> YIELD \<and> hasError vm2 then Some (Inr vm2)
                    else if callFrames vm2 = [] \<and> microtaskQueue vm2 = [] \<and> pendingHostOps vm2 > 0
                    then Some (Inl (HostCall ''setTimeout'', vm2))
                    else eventLoop host vm2))
      else Some (Inr vm))"

text \<open>\<open>new Closure(func, upvalues)\<close>.\<close>

definition newClosure :: "FunctionObject \<Rightarrow> addr list \<Rightarrow> VM \<Rightarrow> addr \<times> VM" where
  "newClosure fn ups vm =
     (nextAddr vm,
      vm\<lparr>closures := (closures vm)(nextAddr vm :=
              \<lparr>cl_func = fn, cl_upvalues = ups, cl_prototype = VUndefined\<rparr>),
         nextAddr := nextAddr vm + 1\<rparr>)"

text \<open>
  \<open>interpret(program)\<close>: the result and the value it returns, and the state it leaves.
\<close>

definition VM_interpret ::
  "Host \<Rightarrow> FunctionObject \<Rightarrow> VM
     \<Rightarrow> ((Escape \<times> VM) + ((InterpretResult \<times> Value) \<times> VM)) option" where
  "VM_interpret host mainFunction vm =
     (case newClosure mainFunction [] vm of (mainFn, vm1) \<Rightarrow>
      case newPromise vm1 of (scriptExecutionPromise, vm2) \<Rightarrow>
        Option.bind
          (eventLoop host
             ((scheduleMicrotask (AsyncCallTask mainFn (Some scriptExecutionPromise) []) vm2)
                \<lparr>hasError := False\<rparr>))
          (\<lambda>r. case r of
             Inl e \<Rightarrow> Some (Inl e)
           | Inr vm3 \<Rightarrow>
               Some (
                 if hasError vm3 then
                   andThen
                     (if state (promises vm3 scriptExecutionPromise) = PENDING
                      then (if stack vm3 \<noteq> []
                            then andThen (pop vm3) (\<lambda>(errorMessage, vm4).
                                   Inr (reject scriptExecutionPromise errorMessage vm4))
                            else Inr (reject scriptExecutionPromise
                                        (VString ''Unknown runtime error.'') vm3))
                      else Inr vm3)
                     (\<lambda>vm5. Inr ((RUNTIME_ERROR, reason (promises vm5 scriptExecutionPromise)), vm5))
                 else if state (promises vm3 scriptExecutionPromise) = FULFILLED
                 then Inr ((OK, pvalue (promises vm3 scriptExecutionPromise)), vm3\<lparr>stack := []\<rparr>)
                 else if state (promises vm3 scriptExecutionPromise) = REJECTED
                 then Inr ((RUNTIME_ERROR, reason (promises vm3 scriptExecutionPromise)), vm3)
                 else andThen (if stack vm3 \<noteq> [] then pop vm3 else Inr (VNull, vm3))
                        (\<lambda>(finalValue, vm4). Inr ((OK, finalValue), vm4\<lparr>stack := []\<rparr>)))))"

section \<open>The compiler (src/compiler)\<close>

text \<open>
  \<open>CompilerState\<close>. The \<open>enclosing\<close> links make a chain from the state
  \<open>Compiler.current\<close> outwards; the model keeps the chain as a list, the current state
  first, so that a function which marks a local of an enclosing state as captured returns
  the whole chain. An upvalue is the pair of \<open>index\<close> and \<open>isLocal\<close>. The \<open>loops\<close>
  field belongs to the loop statements, which are not part of the model. A
  \<open>throw new Error(message)\<close> of the compiler is the result \<open>Inl message\<close>.
\<close>

record Local =
  lc_name :: string
  lc_depth :: int
  lc_isCaptured :: bool

record CompilerState =
  functionName :: string
  bytecode :: "nat list"
  constants :: "Value list"
  locals :: "Local list"
  upvalues :: "(nat \<times> bool) list"
  scopeDepth :: int

definition CompilerState_constructor :: "string \<Rightarrow> CompilerState" where
  "CompilerState_constructor fname =
     (let n = (if fname = [] then ''<script>'' else fname)
      in \<lparr>functionName = n, bytecode = [], constants = [],
          locals = [\<lparr>lc_name = n, lc_depth = 0, lc_isCaptured = False\<rparr>],
          upvalues = [], scopeDepth = 0\<rparr>)"

definition emitByte :: "nat \<Rightarrow> CompilerState \<Rightarrow> CompilerState" where
  "emitByte byte c = c\<lparr>bytecode := bytecode c @ [byte]\<rparr>"

definition emitBytes :: "nat list \<Rightarrow> CompilerState \<Rightarrow> CompilerState" where
  "emitBytes bytes c = c\<lparr>bytecode := bytecode c @ bytes\<rparr>"

definition emitReturn :: "CompilerState \<Rightarrow> CompilerState" where
  "emitReturn c = emitByte Op_RETURN (emitByte Op_PUSH_NULL c)"

definition addConstant :: "Value \<Rightarrow> CompilerState \<Rightarrow> nat \<times> CompilerState" where
  "addConstant v c = (length (constants c), c\<lparr>constants := constants c @ [v]\<rparr>)"

definition emitConstant :: "Value \<Rightarrow> CompilerState \<Rightarrow> string + CompilerState" where
  "emitConstant v c =
     (case addConstant v c of
        (constIndex, c1) \<Rightarrow>
          if constIndex > 255 then Inl ''Constant pool limit exceeded.''
          else Inr (emitBytes [Op_CONSTANT, constIndex] c1))"

text \<open>The loop of \<open>addUpvalue\<close> that looks for an equal upvalue, from index \<open>i\<close> on.\<close>

fun findUpvalue :: "(nat \<times> bool) list \<Rightarrow> nat \<times> bool \<Rightarrow> nat \<Rightarrow> nat option" where
  "findUpvalue [] u i = None"
| "findUpvalue (x # xs) u i = (if x = u then Some i else findUpvalue xs u (i + 1))"

definition addUpvalue :: "nat \<Rightarrow> bool \<Rightarrow> CompilerState \<Rightarrow> string + (nat \<times> CompilerState)" where
  "addUpvalue index isLocal c =
     (case findUpvalue (upvalues c) (index, isLocal) 0 of
        Some i \<Rightarrow> Inr (i, c)
      | None \<Rightarrow>
          if length (upvalues c) > 255 then Inl ''Too many upvalues in function.''
          else Inr (length (upvalues c), c\<lparr>upvalues := upvalues c @ [(index, isLocal)]\<rparr>))"

text \<open>\<open>for (let i = locals.length - 1; i >= 0; i--)\<close>: the second argument is \<open>i + 1\<close>.\<close>

fun resolveLocalLoop :: "Local list \<Rightarrow> nat \<Rightarrow> string \<Rightarrow> int" where
  "resolveLocalLoop ls 0 n = -1"
| "resolveLocalLoop ls (Suc i) n = (if lc_name (ls ! i) = n then int i else resolveLocalLoop ls i n)"

definition resolveLocal :: "string \<Rightarrow> CompilerState \<Rightarrow> int" where
  "resolveLocal n c = resolveLocalLoop (locals c) (length (locals c)) n"

section \<open>src/compiler/utils.js\<close>

definition addLocal :: "string \<Rightarrow> CompilerState \<Rightarrow> string + CompilerState" where
  "addLocal n c =
     (if length (locals c) > 255 then Inl ''Too many local variables.''
      else Inr (c\<lparr>locals := locals c @ [\<lparr>lc_name = n, lc_depth = scopeDepth c, lc_isCaptured = False\<rparr>]\<rparr>))"

text \<open>The loop of \<open>declareVariable\<close>: whether it throws.\<close>

fun redeclared :: "Local list \<Rightarrow> nat \<Rightarrow> int \<Rightarrow> string \<Rightarrow> bool" where
  "redeclared ls 0 d n = False"
| "redeclared ls (Suc i) d n =
     (if lc_depth (ls ! i) \<noteq> -1 \<and> lc_depth (ls ! i) < d then False
      else if lc_name (ls ! i) = n then True
      else redeclared ls i d n)"

definition declareVariable :: "string \<Rightarrow> CompilerState \<Rightarrow> string + CompilerState" where
  "declareVariable n c =
     (if scopeDepth c = 0 then Inr c
      else if redeclared (locals c) (length (locals c)) (scopeDepth c) n
      then Inl (''Identifier '' @ [CHR 0x27] @ n @ [CHR 0x27] @ '' has already been declared.'')
      else addLocal n c)"

definition defineVariable :: "string \<Rightarrow> CompilerState \<Rightarrow> CompilerState" where
  "defineVariable n c =
     (let localSlot = resolveLocal n c
      in if localSlot \<noteq> -1 then emitBytes [Op_SET_LOCAL, nat localSlot] c
         else (case addConstant (VString n) c of
                 (constIndex, c1) \<Rightarrow> emitBytes [Op_DEFINE_GLOBAL, constIndex] c1))"

text \<open>
  \<open>resolveUpvalue(name, currentCompilerState)\<close>, on the chain that starts at
  \<open>currentCompilerState\<close>. It returns the upvalue index, or -1, and the chain with the
  marks and upvalues it has added.
\<close>

fun resolveUpvalue :: "string \<Rightarrow> CompilerState list \<Rightarrow> string + (int \<times> CompilerState list)" where
  "resolveUpvalue n [] = Inr (-1, [])"
| "resolveUpvalue n [c] = Inr (-1, [c])"
| "resolveUpvalue n (c # e # rest) =
     (let local = resolveLocal n e
      in if local \<noteq> -1
         then andThen (addUpvalue (nat local) True c) (\<lambda>(i, c1).
                Inr (int i, c1 # e\<lparr>locals := (locals e)[nat local := (locals e ! nat local)\<lparr>lc_isCaptured := True\<rparr>]\<rparr> # rest))
         else andThen (resolveUpvalue n (e # rest)) (\<lambda>(upvalue, es).
                if upvalue \<noteq> -1
                then andThen (addUpvalue (nat upvalue) False c) (\<lambda>(i, c1). Inr (int i, c1 # es))
                else Inr (-1, c # es)))"

definition NATIVE_GLOBALS :: "string list" where
  "NATIVE_GLOBALS = [''console'', ''Math'', ''performance'', ''Date'', ''Object'', ''Promise'']"

text \<open>\<open>compilerInstance.current\<close> is the head of the chain.\<close>

definition onCurrent :: "(CompilerState \<Rightarrow> CompilerState) \<Rightarrow> CompilerState list \<Rightarrow> CompilerState list" where
  "onCurrent f cs = f (hd cs) # tl cs"

definition tryCurrent ::
  "(CompilerState \<Rightarrow> string + CompilerState) \<Rightarrow> CompilerState list \<Rightarrow> string + CompilerState list" where
  "tryCurrent f cs = andThen (f (hd cs)) (\<lambda>c. Inr (c # tl cs))"

definition emitGetVariable :: "string \<Rightarrow> CompilerState list \<Rightarrow> string + CompilerState list" where
  "emitGetVariable n cs =
     (let localSlot = resolveLocal n (hd cs)
      in if localSlot \<noteq> -1 then Inr (onCurrent (emitBytes [Op_GET_LOCAL, nat localSlot]) cs)
         else andThen (resolveUpvalue n cs) (\<lambda>(upvalueSlot, cs1).
                if upvalueSlot \<noteq> -1
                then Inr (onCurrent (emitBytes [Op_GET_UPVALUE, nat upvalueSlot]) cs1)
                else (case addConstant (VString n) (hd cs1) of
                        (constIndex, c1) \<Rightarrow>
                          Inr ((if n \<in> set NATIVE_GLOBALS
                                then emitBytes [Op_GET_NATIVE, constIndex] c1
                                else emitBytes [Op_GET_GLOBAL, constIndex] c1) # tl cs1))))"

section \<open>The visitors (src/compiler/visitors)\<close>

text \<open>
  The part of the syntax tree that the model compiles: identifiers that are read,
  literals, \<open>this\<close>, \<open>await\<close>, \<open>new\<close>, calls, and member expressions that are not
  computed; expression statements, \<open>return\<close>, declarations of one variable by an
  identifier; class declarations at the top level, whose members are methods (the key
  of a method is the name of its identifier, or nothing when the key is no identifier
  and \<open>key.name\<close> is \<open>undefined\<close>). A node is
  visited as the traversal of the source does it: the children in the order of the
  node's fields, then the \<open>exit\<close> visitor of the node; a visitor that has an \<open>enter\<close>
  function visits the children itself and skips the rest.
\<close>

datatype Expr =
    Identifier string
  | StringLiteral string
  | NumericLiteral "64 word"
  | NullLiteral
  | ThisExpression
  | AwaitExpression Expr
  | NewExpression Expr "Expr list"
  | CallExpression Expr "Expr list"
  | MemberExpression Expr string

datatype Stmt =
    ExpressionStatement Expr
  | ReturnStatement "Expr option"
  | VariableDeclaration string "Expr option"

datatype ClassMethod =
  ClassMethod (m_kind: string) (m_key: "string option") (m_params: "string list") (m_body: "Stmt list")

datatype Node = Statement Stmt | ClassDeclaration string "ClassMethod list"

text \<open>
  The expression visitors. The callee of a call that is a member expression emits
  nothing for the member itself: the call emits \<open>OP_CALL_METHOD\<close> with the name.
\<close>

fun compileExpr :: "Expr \<Rightarrow> CompilerState list \<Rightarrow> string + CompilerState list"
  and compileExprs :: "Expr list \<Rightarrow> CompilerState list \<Rightarrow> string + CompilerState list" where
  "compileExpr (Identifier n) cs = emitGetVariable n cs"
| "compileExpr (StringLiteral s) cs = tryCurrent (emitConstant (VString s)) cs"
| "compileExpr (NumericLiteral w) cs = tryCurrent (emitConstant (VNumber w)) cs"
| "compileExpr NullLiteral cs = Inr (onCurrent (emitByte Op_PUSH_NULL) cs)"
| "compileExpr ThisExpression cs = Inr (onCurrent (emitBytes [Op_GET_LOCAL, 0]) cs)"
| "compileExpr (AwaitExpression e) cs =
     andThen (compileExpr e cs) (\<lambda>cs1. Inr (onCurrent (emitByte Op_AWAIT) cs1))"
| "compileExpr (NewExpression calleeNode argNodes) cs =
     andThen (compileExpr calleeNode cs) (\<lambda>cs1. andThen (compileExprs argNodes cs1) (\<lambda>cs2.
       Inr (onCurrent (emitBytes [Op_NEW, length argNodes]) cs2)))"
| "compileExpr (CallExpression calleeNode argNodes) cs =
     (case calleeNode of
        MemberExpression object methodName \<Rightarrow>
          andThen (compileExpr object cs) (\<lambda>cs1. andThen (compileExprs argNodes cs1) (\<lambda>cs2.
            case addConstant (VString methodName) (hd cs2) of
              (nameIndex, c) \<Rightarrow> Inr (emitBytes [Op_CALL_METHOD, nameIndex, length argNodes] c # tl cs2)))
      | _ \<Rightarrow>
          andThen (compileExpr calleeNode cs) (\<lambda>cs1. andThen (compileExprs argNodes cs1) (\<lambda>cs2.
            Inr (onCurrent (emitBytes [Op_CALL, length argNodes]) cs2))))"
| "compileExpr (MemberExpression object propertyName) cs =
     andThen (compileExpr object cs) (\<lambda>cs1.
       case addConstant (VString propertyName) (hd cs1) of
         (nameIndex, c) \<Rightarrow> Inr (emitBytes [Op_GET_PROPERTY_PROTO, nameIndex] c # tl cs1))"
| "compileExprs [] cs = Inr cs"
| "compileExprs (e # es) cs = andThen (compileExpr e cs) (compileExprs es)"

text \<open>The statement visitors and \<open>VariableDeclaration\<close>.\<close>

fun compileStmt :: "Stmt \<Rightarrow> CompilerState list \<Rightarrow> string + CompilerState list" where
  "compileStmt (ExpressionStatement e) cs =
     andThen (compileExpr e cs) (\<lambda>cs1. Inr (onCurrent (emitByte Op_POP) cs1))"
| "compileStmt (ReturnStatement None) cs =
     Inr (onCurrent (emitByte Op_RETURN) (onCurrent (emitByte Op_PUSH_NULL) cs))"
| "compileStmt (ReturnStatement (Some e)) cs =
     andThen (compileExpr e cs) (\<lambda>cs1. Inr (onCurrent (emitByte Op_RETURN) cs1))"
| "compileStmt (VariableDeclaration n init) cs =
     andThen (case init of
                Some e \<Rightarrow> compileExpr e cs
              | None \<Rightarrow> Inr (onCurrent (emitByte Op_PUSH_NULL) cs)) (\<lambda>cs1.
       andThen (tryCurrent (declareVariable n) cs1) (\<lambda>cs2.
         Inr (onCurrent (defineVariable n) cs2)))"

fun compileStmts :: "Stmt list \<Rightarrow> CompilerState list \<Rightarrow> string + CompilerState list" where
  "compileStmts [] cs = Inr cs"
| "compileStmts (s # ss) cs = andThen (compileStmt s cs) (compileStmts ss)"

fun declareParams :: "string list \<Rightarrow> CompilerState list \<Rightarrow> string + CompilerState list" where
  "declareParams [] cs = Inr cs"
| "declareParams (p # ps) cs = andThen (tryCurrent (declareVariable p) cs) (declareParams ps)"

text \<open>The bytes that follow \<open>OP_CLOSURE\<close>: \<open>isLocal ? 1 : 0\<close> and the index of each upvalue.\<close>

definition upvalueBytes :: "(nat \<times> bool) list \<Rightarrow> nat list" where
  "upvalueBytes ups = concat (map (\<lambda>(index, isLocal). [if isLocal then 1 else 0, index]) ups)"

text \<open>\<open>compileMethod(compiler, path, defaultName)\<close> of src/compiler/visitors/classes.js.\<close>

definition compileMethod :: "ClassMethod \<Rightarrow> string \<Rightarrow> CompilerState list \<Rightarrow> string + CompilerState list" where
  "compileMethod m defaultName cs =
     (let methodName = (case m_key m of
                          Some n \<Rightarrow> if n = [] then defaultName else n
                        | None \<Rightarrow> defaultName);
          c0 = CompilerState_constructor methodName;
          functionCompiler = c0\<lparr>locals := (locals c0)[0 := (locals c0 ! 0)\<lparr>lc_name := ''this''\<rparr>],
                               scopeDepth := scopeDepth c0 + 1\<rparr>
      in andThen (declareParams (m_params m) (functionCompiler # cs)) (\<lambda>cs1.
         andThen (compileStmts (m_body m) cs1) (\<lambda>cs2.
           let c = hd cs2;
               c1 = (if bytecode c \<noteq> [] \<and> last (bytecode c) = Op_RETURN then c
                     else if m_kind m = ''constructor''
                     then emitByte Op_RETURN (emitBytes [Op_GET_LOCAL, 0] c)
                     else emitReturn c);
               compiledMethod = FunctionObject methodName (length (m_params m)) (bytecode c1)
                                  (constants c1) (length (upvalues c1)) (upvalues c1) False False
           in case addConstant (VFunctionObject compiledMethod) (hd (tl cs2)) of
                (constIndex, e) \<Rightarrow>
                  Inr (emitBytes (upvalueBytes (upvalues c1)) (emitBytes [Op_CLOSURE, constIndex] e)
                         # tl (tl cs2)))))"

text \<open>
  The loop over the methods of a class that are no constructor (\<open>methodPaths\<close> is the
  list of them; the loop here passes over the constructors).
\<close>

fun attachMethods :: "string \<Rightarrow> ClassMethod list \<Rightarrow> CompilerState list \<Rightarrow> string + CompilerState list" where
  "attachMethods className [] cs = Inr cs"
| "attachMethods className (m # ms) cs =
     (if m_kind m = ''constructor'' then attachMethods className ms cs
      else
        (case addConstant (VString className) (hd cs) of
           (classIndex, c) \<Rightarrow>
             andThen (compileMethod m ''<anonymous>''
                        (emitByte Op_GET_PROTOTYPE (emitBytes [Op_GET_GLOBAL, classIndex] c) # tl cs))
               (\<lambda>cs1. case addConstant (case m_key m of Some n \<Rightarrow> VString n | None \<Rightarrow> VUndefined)
                             (hd cs1) of
                  (nameIndex, c1) \<Rightarrow>
                    attachMethods className ms
                      (emitByte Op_POP (emitBytes [Op_SET_PROPERTY_PROTO, nameIndex] c1) # tl cs1))))"

text \<open>The visitor \<open>ClassDeclaration\<close>.\<close>

definition compileClassDeclaration ::
  "string \<Rightarrow> ClassMethod list \<Rightarrow> CompilerState list \<Rightarrow> string + CompilerState list" where
  "compileClassDeclaration className members cs =
     andThen (tryCurrent (declareVariable className) cs) (\<lambda>cs1.
       andThen
         (case find (\<lambda>p. m_kind p = ''constructor'') members of
            Some constructorPath \<Rightarrow> compileMethod constructorPath className cs1
          | None \<Rightarrow>
              (let emptyConstructor = FunctionObject className 0 [Op_GET_LOCAL, 0, Op_RETURN] [] 0 [] False False
               in tryCurrent (emitConstant (VFunctionObject emptyConstructor)) cs1))
         (\<lambda>cs2. attachMethods className members (onCurrent (defineVariable className) cs2)))"

fun compileNode :: "Node \<Rightarrow> CompilerState list \<Rightarrow> string + CompilerState list" where
  "compileNode (Statement s) cs = compileStmt s cs"
| "compileNode (ClassDeclaration className members) cs = compileClassDeclaration className members cs"

fun compileNodes :: "Node list \<Rightarrow> CompilerState list \<Rightarrow> string + CompilerState list" where
  "compileNodes [] cs = Inr cs"
| "compileNodes (n # ns) cs = andThen (compileNode n cs) (compileNodes ns)"

text \<open>\<open>Compiler.compile\<close>, from the syntax tree on: the main function of the program.\<close>

definition compile :: "Node list \<Rightarrow> string + FunctionObject" where
  "compile program =
     andThen (compileNodes program [CompilerState_constructor ''<script>'']) (\<lambda>cs.
       let c = hd cs;
           c1 = (if bytecode c = [] \<or> last (bytecode c) \<noteq> Op_RETURN then emitReturn c else c)
       in Inr (FunctionObject (functionName c1) 0 (bytecode c1) (constants c1)
                 (length (upvalues c1)) (upvalues c1) False False))"

section \<open>The list of open upvalues\<close>


section \<open>Prototype chains\<close>





section \<open>The constructor of VM\<close>

text \<open>
  The state \<open>new VM()\<close> builds. No object exists yet; the stores hold a default at every
  address, which nothing refers to.
\<close>

definition emptyFunction :: FunctionObject where
  "emptyFunction = FunctionObject ''<script>'' 0 [] [] 0 [] False False"

definition VM_constructor :: VM where
  "VM_constructor =
     \<lparr>stack = [], stackProps = (\<lambda>i. None),
      globals = map_of
        [(''console'', VNativeObject (NativeHost ''console'')),
         (''Object'', VNativeObject (NativeHost ''Object'')),
         (''Promise'', VNativeObject NativePromiseClass),
         (''fetch'', VNativeObject (NativeHost ''fetch'')),
         (''setInterval'', VNativeObject (NativeHost ''setInterval'')),
         (''clearInterval'', VNativeObject (NativeHost ''clearInterval'')),
         (''setTimeout'', VNativeObject (NativeHost ''setTimeout''))],
      callFrames = [], currentFrame = None, openUpvalues = None, exceptionHandlers = [],
      microtaskQueue = [], MAX_CALL_FRAMES = 256, pendingHostOps = 0, hasError = False,
      consoleError = [],
      frames = (\<lambda>a. \<lparr>func = emptyFunction, ip = 0, stackBase = 0, closure = 0, asyncPromise = None\<rparr>),
      closures = (\<lambda>a. \<lparr>cl_func = emptyFunction, cl_upvalues = [], cl_prototype = VUndefined\<rparr>),
      upvalueCells = (\<lambda>a. \<lparr>location = 0, closed = VNull, nextUpvalue = None\<rparr>),
      objects = (\<lambda>a. \<lparr>properties = [], properties_proto = ObjectPrototype, prototype = VNull\<rparr>),
      arrays = (\<lambda>a. []),
      promises = (\<lambda>a. \<lparr>state = PENDING, pvalue = VUndefined, reason = VUndefined,
                         onFulfilledCallbacks = [], onRejectedCallbacks = []\<rparr>),
      generators = (\<lambda>a. 0),
      nextAddr = 0\<rparr>"

section \<open>The falsy values as the specification lists them\<close>

text \<open>
  The specification's list, word for word: null, false, 0, the empty string, the empty
  array. It is compared with \<open>isFalsy\<close>, which is translated from the source.
\<close>

definition listedFalsy :: "VM \<Rightarrow> Value \<Rightarrow> bool" where
  "listedFalsy vm v =
     (case v of
        VNull \<Rightarrow> True
      | VBool b \<Rightarrow> \<not> b
      | VNumber w \<Rightarrow> isZero w
      | VString s \<Rightarrow> s = []
      | VArray a \<Rightarrow> arrays vm a = []
      | _ \<Rightarrow> False)"

section \<open>Concrete states\<close>

text \<open>States at which the theorems below are evaluated.\<close>

definition truthinessState :: VM where
  "truthinessState =
     VM_constructor\<lparr>stack := [VArray 0], callFrames := [0], currentFrame := Some 0,
       frames := (frames VM_constructor)(0 :=
         \<lparr>func = FunctionObject ''<script>'' 0 [65, 1, 44] [] 0 [] False False,
          ip = 1, stackBase = 0, closure = 0, asyncPromise = None\<rparr>)\<rparr>"



text \<open>
  Two frames: the script's at address 20 and, above it, the frame at address 21 of the
  closure at address 11, which holds the promise at address 5. The one exception handler
  was installed by the upper frame. The flag says whether the closure's function is async.
\<close>

definition errorState :: "bool \<Rightarrow> VM" where
  "errorState isAsync =
     VM_constructor\<lparr>stack := [VClosure 11, VBool True], callFrames := [20, 21],
       currentFrame := Some 21,
       exceptionHandlers := [\<lparr>targetIp = 9, stackSize = 1, frameIndex = 1\<rparr>],
       frames := (frames VM_constructor)
         (20 := \<lparr>func = emptyFunction, ip = 4, stackBase = 0, closure = 10, asyncPromise = None\<rparr>,
          21 := \<lparr>func = FunctionObject ''f'' 0 [80, 0, 3, 2, 82, 81] [] 0 [] False isAsync,
                  ip = 5, stackBase = 0, closure = 11, asyncPromise = Some 5\<rparr>),
       closures := (closures VM_constructor)
         (10 := \<lparr>cl_func = emptyFunction, cl_upvalues = [], cl_prototype = VUndefined\<rparr>,
          11 := \<lparr>cl_func = FunctionObject ''f'' 0 [80, 0, 3, 2, 82, 81] [] 0 [] False isAsync,
                  cl_upvalues = [], cl_prototype = VUndefined\<rparr>),
       nextAddr := 22\<rparr>"

text \<open>
  The state of \<open>let o = {}; o.toString = 1; try { throw o.properties; } catch (e) {}\<close> inside
  the \<open>try\<close> block, where the handler is installed and \<open>o\<close> is on top of the stack: the
  frame is about to execute \<open>OP_GET_PROPERTY_PROTO\<close> with the name "properties" and then
  \<open>OP_THROW\<close>. The record of \<open>o\<close> has the own entry \<open>toString\<close> with the number 1.
\<close>

definition throwFunction :: FunctionObject where
  "throwFunction = FunctionObject ''f'' 0 [134, 0, 82] [VString ''properties''] 0 [] False False"

definition throwState :: VM where
  "throwState =
     VM_constructor\<lparr>stack := [VClosure 11, VObject 60], callFrames := [20, 21],
       currentFrame := Some 21,
       exceptionHandlers := [\<lparr>targetIp = 9, stackSize = 1, frameIndex = 1\<rparr>],
       frames := (frames VM_constructor)
         (20 := \<lparr>func = emptyFunction, ip = 4, stackBase = 0, closure = 10, asyncPromise = None\<rparr>,
          21 := \<lparr>func = throwFunction, ip = 0, stackBase = 0, closure = 11, asyncPromise = None\<rparr>),
       closures := (closures VM_constructor)
         (10 := \<lparr>cl_func = emptyFunction, cl_upvalues = [], cl_prototype = VUndefined\<rparr>,
          11 := \<lparr>cl_func = throwFunction, cl_upvalues = [], cl_prototype = VUndefined\<rparr>),
       objects := (objects VM_constructor)
         (60 := \<lparr>properties = [(''toString'', VNumber 0x3FF0000000000000)],
                 properties_proto = ObjectPrototype, prototype = VNull\<rparr>),
       nextAddr := 61\<rparr>"

text \<open>
  A state with 256 frames on the frame stack (\<open>MAX_CALL_FRAMES\<close>), as a recursion
  through \<open>new\<close>, through a method call or through a call reaches it, for instance
  \<open>class A { constructor() { new A(); } } new A();\<close>. The function of the frames holds
  an \<open>OP_NEW\<close>, an \<open>OP_CALL_METHOD\<close> and an \<open>OP_CALL\<close>; the newest frame is about to read
  the operand at \<open>i\<close> of \<open>OP_NEW\<close> (at 3), of \<open>OP_CALL_METHOD\<close> (at 8) or of \<open>OP_CALL\<close>
  (at 11); \<open>tv\<close> is the top of the stack.
\<close>

definition constructorA :: FunctionObject where
  "constructorA =
     FunctionObject ''A'' 0 [48, 0, 145, 0, 4, 50, 0, 113, 1, 0, 96, 0, 97]
       [VString ''A'', VString ''m''] 0 [] False False"

definition deepFrames :: "addr list" where
  "deepFrames = [100..<356]"

definition deepStack :: "Value list" where
  "deepStack = replicate 256 (VObject 60)"

definition deepState :: "int \<Rightarrow> Value \<Rightarrow> VM" where
  "deepState i tv =
     VM_constructor\<lparr>stack := deepStack @ [tv],
       callFrames := deepFrames, currentFrame := Some 355,
       frames := (\<lambda>a. \<lparr>func = constructorA, ip = i, stackBase = a - 100, closure = 50,
                         asyncPromise = None\<rparr>),
       closures := (closures VM_constructor)(50 :=
          \<lparr>cl_func = constructorA, cl_upvalues = [], cl_prototype = VObject 60\<rparr>),
       objects := (objects VM_constructor)(60 :=
          \<lparr>properties = [(''m'', VClosure 50)], properties_proto = ObjectPrototype, prototype = VNull\<rparr>),
       nextAddr := 1000\<rparr>"






text \<open>
  The state in which the event loop is about to start the body of \<open>f\<close>, for the program

  \<^verbatim>\<open>function h(x) { return x; }\<close>
  \<^verbatim>\<open>async function g() { return "done"; }\<close>
  \<^verbatim>\<open>async function f() { h(await g()); }\<close>
  \<^verbatim>\<open>f();\<close>

  The script has returned, leaving its result on the stack. The closures 10, 11 and 12
  are \<open>f\<close>, \<open>g\<close> and \<open>h\<close> with the bytecode the compiler emits for them; promise 4 is the
  one the call \<open>f()\<close> returned, and the task of that call is in the queue.
\<close>

definition function_f :: FunctionObject where
  "function_f = FunctionObject ''f'' 0
     [Op_GET_GLOBAL, 0, Op_GET_GLOBAL, 1, Op_CALL, 0, Op_AWAIT, Op_CALL, 1, Op_POP,
      Op_PUSH_NULL, Op_RETURN]
     [VString ''h'', VString ''g''] 0 [] False True"

definition function_g :: FunctionObject where
  "function_g = FunctionObject ''g'' 0 [Op_CONSTANT, 0, Op_RETURN] [VString ''done''] 0 [] False True"

definition function_h :: FunctionObject where
  "function_h = FunctionObject ''h'' 1 [Op_GET_LOCAL, 1, Op_RETURN] [] 0 [] False False"

definition awaitProgram :: VM where
  "awaitProgram =
     VM_constructor\<lparr>stack := [VNull],
       globals := (globals VM_constructor)
         (''h'' \<mapsto> VClosure 12, ''g'' \<mapsto> VClosure 11, ''f'' \<mapsto> VClosure 10),
       microtaskQueue := [AsyncCallTask 10 (Some 4) []],
       closures := (closures VM_constructor)
         (10 := \<lparr>cl_func = function_f, cl_upvalues = [], cl_prototype = VUndefined\<rparr>,
          11 := \<lparr>cl_func = function_g, cl_upvalues = [], cl_prototype = VUndefined\<rparr>,
          12 := \<lparr>cl_func = function_h, cl_upvalues = [], cl_prototype = VUndefined\<rparr>),
       nextAddr := 30\<rparr>"

text \<open>
  The program \<^verbatim>\<open>class P { greet() { return "hi"; } } let p = new P(); p.greet()\<close>.
\<close>

definition greetProgram :: "Node list" where
  "greetProgram =
     [ClassDeclaration ''P''
        [ClassMethod ''method'' (Some ''greet'') [] [ReturnStatement (Some (StringLiteral ''hi''))]],
      Statement (VariableDeclaration ''p'' (Some (NewExpression (Identifier ''P'') []))),
      Statement (ExpressionStatement (CallExpression (MemberExpression (Identifier ''p'') ''greet'') []))]"

text \<open>The program of \<open>n\<close> statements \<^verbatim>\<open>a;\<close>, each of which reads the global variable \<open>a\<close>.\<close>

definition readsProgram :: "nat \<Rightarrow> Node list" where
  "readsProgram n = replicate n (Statement (ExpressionStatement (Identifier ''a'')))"

text \<open>The main function that the compiler makes of it.\<close>

definition greetMain :: FunctionObject where
  "greetMain =
     FunctionObject ''<script>'' 0
       [Op_CONSTANT, 0, Op_DEFINE_GLOBAL, 1,
        Op_GET_GLOBAL, 2, Op_GET_PROTOTYPE, Op_CLOSURE, 3, Op_SET_PROPERTY_PROTO, 4, Op_POP,
        Op_GET_GLOBAL, 5, Op_NEW, 0, Op_DEFINE_GLOBAL, 6,
        Op_GET_GLOBAL, 7, Op_CALL_METHOD, 8, 0, Op_POP,
        Op_PUSH_NULL, Op_RETURN]
       [VFunctionObject (FunctionObject ''P'' 0 [Op_GET_LOCAL, 0, Op_RETURN] [] 0 [] False False),
        VString ''P'', VString ''P'',
        VFunctionObject (FunctionObject ''greet'' 0 [Op_CONSTANT, 0, Op_RETURN] [VString ''hi''] 0 [] False False),
        VString ''greet'', VString ''P'', VString ''p'', VString ''p'', VString ''greet'']
       0 [] False False"

text \<open>
  The bytecode of \<open>n\<close> such statements whose first name is constant \<open>k\<close>: each one is an
  \<open>OP_GET_GLOBAL\<close> with the index of its own copy of the name, and an \<open>OP_POP\<close>.
\<close>

definition readsCode :: "nat \<Rightarrow> nat \<Rightarrow> nat list" where
  "readsCode k n = concat (map (\<lambda>i. [Op_GET_GLOBAL, k + i, Op_POP]) [0..<n])"


section \<open>Basic facts\<close>

lemma andThen_simps [simp]:
  "andThen (Inl e) f = Inl e" "andThen (Inr x) f = f x"
  by (simp_all add: andThen_def)

lemma isFalsy_arrays: "arrays vm' = arrays vm \<Longrightarrow> isFalsy vm' v = isFalsy vm v"
  by (cases v) (simp_all add: isFalsy_def)

lemma isFalsy_upd [simp]:
  "isFalsy (vm\<lparr>stack := s\<rparr>) v = isFalsy vm v"
  "isFalsy (vm\<lparr>frames := fs\<rparr>) v = isFalsy vm v"
  by (rule isFalsy_arrays, simp)+

lemma isFalsy_listed: "isFalsy vm v \<longleftrightarrow> listedFalsy vm v \<or> v = VUndefined"
  by (cases v) (auto simp: isFalsy_def listedFalsy_def)

text \<open>The loops, one round at a time.\<close>

lemma run_error: "hasError vm \<Longrightarrow> run host vm = Some (Inr (RUNTIME_ERROR, vm))"
  by (subst run.simps) simp

lemma run_idle: "\<not> hasError vm \<Longrightarrow> callFrames vm = [] \<Longrightarrow> run host vm = Some (Inr (OK, vm))"
  by (subst run.simps) simp

lemma run_step:
  "\<not> hasError vm \<Longrightarrow> callFrames vm \<noteq> [] \<Longrightarrow>
   run host vm =
     (case readByte (last (callFrames vm)) (vm\<lparr>currentFrame := Some (last (callFrames vm))\<rparr>) of
        (instruction, vm1) \<Rightarrow>
          Option.bind (dispatch host instruction vm1) (\<lambda>r.
            case r of
              Inl e \<Rightarrow> Some (Inl e)
            | Inr (result, vm2) \<Rightarrow>
                if result = YIELD then Some (Inr (YIELD, vm2))
                else if hasError vm2 then Some (Inr (RUNTIME_ERROR, vm2))
                else run host vm2))"
  by (subst run.simps) (simp add: Let_def)

lemma runMicrotasks_Nil: "microtaskQueue vm = [] \<Longrightarrow> runMicrotasks vm = Some (Inr vm)"
  by (subst runMicrotasks.simps) simp

lemma runMicrotasks_step:
  "microtaskQueue vm \<noteq> [] \<Longrightarrow>
   runMicrotasks vm =
     (if hasError vm then Some (Inr vm)
      else Option.bind (runTask (hd (microtaskQueue vm)) (vm\<lparr>microtaskQueue := tl (microtaskQueue vm)\<rparr>))
             (\<lambda>r. case r of Inl e \<Rightarrow> Some (Inl e) | Inr vm1 \<Rightarrow> runMicrotasks vm1))"
  by (subst runMicrotasks.simps) (simp split: list.splits)

lemma eventLoop_done:
  "callFrames vm = [] \<Longrightarrow> microtaskQueue vm = [] \<Longrightarrow> pendingHostOps vm \<le> 0
   \<Longrightarrow> eventLoop host vm = Some (Inr vm)"
  by (subst eventLoop.simps) simp

lemma eventLoop_error:
  "hasError vm \<Longrightarrow> eventLoop host vm = Some (Inr vm)"
  by (subst eventLoop.simps) simp

lemma eventLoop_step:
  "callFrames vm \<noteq> [] \<or> microtaskQueue vm \<noteq> [] \<or> pendingHostOps vm > 0 \<Longrightarrow> \<not> hasError vm \<Longrightarrow>
   eventLoop host vm =
     Option.bind (runMicrotasks vm) (\<lambda>r.
          case r of
            Inl e \<Rightarrow> Some (Inl e)
          | Inr vm1 \<Rightarrow>
              Option.bind (if callFrames vm1 \<noteq> [] then run host vm1 else Some (Inr (OK, vm1))) (\<lambda>r2.
                case r2 of
                  Inl e \<Rightarrow> Some (Inl e)
                | Inr (result, vm2) \<Rightarrow>
                    if callFrames vm1 \<noteq> [] \<and> result \<noteq> YIELD \<and> hasError vm2 then Some (Inr vm2)
                    else if callFrames vm2 = [] \<and> microtaskQueue vm2 = [] \<and> pendingHostOps vm2 > 0
                    then Some (Inl (HostCall ''setTimeout'', vm2))
                    else eventLoop host vm2))"
  by (subst eventLoop.simps) simp

lemma closeUpvalues_None: "openUpvalues vm = None \<Longrightarrow> closeUpvalues k vm = Some vm"
  by (subst closeUpvalues.simps) simp

lemmas Opcodes = Op_CONSTANT_def Op_PUSH_NULL_def Op_POP_def Op_NOT_def Op_GET_GLOBAL_def
  Op_DEFINE_GLOBAL_def Op_GET_LOCAL_def Op_SET_LOCAL_def Op_GET_UPVALUE_def Op_SET_UPVALUE_def
  Op_JUMP_IF_FALSE_def Op_THROW_def Op_CALL_def Op_RETURN_def Op_CLOSURE_def Op_AWAIT_def
  Op_GET_NATIVE_def Op_CALL_METHOD_def Op_GET_PROPERTY_PROTO_def Op_SET_PROPERTY_PROTO_def
  Op_GET_PROTOTYPE_def Op_NEW_def Op_NEW_OBJECT_def



section \<open>Truthiness\<close>

text \<open>
  C3, as the source has it. \<open>isFalsy\<close> holds of exactly null, false, 0, the empty string,
  the empty array and also \<open>undefined\<close>. \<open>OP_NOT\<close> replaces the top of the stack by
  \<open>isFalsy\<close> of it, and \<open>OP_JUMP_IF_FALSE\<close> leaves the stack as it is and adds its
  operand to the instruction pointer exactly when the top of the stack is falsy.
\<close>

theorem truthiness_with_undefined:
  assumes "stack vm = st @ [v]" and "currentFrame vm = Some f"
  shows "(isFalsy vm v \<longleftrightarrow> listedFalsy vm v \<or> v = VUndefined)
    \<and> OP_NOT vm = Inr (OK, vm\<lparr>stack := st @ [VBool (isFalsy vm v)]\<rparr>)
    \<and> OP_JUMP_IF_FALSE vm =
        Inr (OK, vm\<lparr>frames := (frames vm)(f := (frames vm f)\<lparr>ip := ip (frames vm f) + 2
               + (if isFalsy vm v then fst (readShort f vm) else 0)\<rparr>)\<rparr>)"
proof (intro conjI)
  show "isFalsy vm v \<longleftrightarrow> listedFalsy vm v \<or> v = VUndefined"
    by (rule isFalsy_listed)
  show "OP_NOT vm = Inr (OK, vm\<lparr>stack := st @ [VBool (isFalsy vm v)]\<rparr>)"
    using assms(1) by (simp add: OP_NOT_def pop_def push_def)
  show "OP_JUMP_IF_FALSE vm =
        Inr (OK, vm\<lparr>frames := (frames vm)(f := (frames vm f)\<lparr>ip := ip (frames vm f) + 2
               + (if isFalsy vm v then fst (readShort f vm) else 0)\<rparr>)\<rparr>)"
    using assms
    by (simp add: OP_JUMP_IF_FALSE_def withCurrentFrame_def readShort_def peek_def Let_def)
qed

text \<open>
  The theorem at a concrete state: the frame at address 0 runs the operand bytes 1, 44
  (offset 300), and the empty array at address 0 is on top of the stack. \<open>OP_NOT\<close> pushes
  true and the jump is taken.
\<close>

theorem truthiness_with_undefined_witness:
  "stack truthinessState = [] @ [VArray 0] \<and> currentFrame truthinessState = Some 0
   \<and> OP_NOT truthinessState = Inr (OK, truthinessState\<lparr>stack := [VBool True]\<rparr>)
   \<and> (\<exists>vm'. OP_JUMP_IF_FALSE truthinessState = Inr (OK, vm') \<and> ip (frames vm' 0) = 303
          \<and> stack vm' = [VArray 0])"
proof -
  have h1: "stack truthinessState = [] @ [VArray 0]"
    by (simp add: truthinessState_def)
  have h2: "currentFrame truthinessState = Some 0"
    by (simp add: truthinessState_def)
  have falsy: "isFalsy truthinessState (VArray 0)"
    by (simp add: isFalsy_def truthinessState_def VM_constructor_def)
  have off: "fst (readShort 0 truthinessState) = 300"
    by (simp add: readShort_def truthinessState_def byteAt_def toInt32_def Let_def)
  have ip0: "ip (frames truthinessState 0) = 1"
    by (simp add: truthinessState_def)
  from truthiness_with_undefined [OF h1 h2] falsy off ip0 h1 h2 show ?thesis
    by simp
qed

text \<open>
  C3 as the specification states it fails at \<open>undefined\<close>, which is none of the five
  listed values: \<open>OP_NOT\<close> pushes true for it and \<open>OP_JUMP_IF_FALSE\<close> jumps.
\<close>

theorem undefined_is_falsy_counterexample:
  "\<not> listedFalsy truthinessState VUndefined
   \<and> OP_NOT (truthinessState\<lparr>stack := [VUndefined]\<rparr>)
       = Inr (OK, truthinessState\<lparr>stack := [VBool True]\<rparr>)
   \<and> ip (frames (snd (projr (OP_JUMP_IF_FALSE (truthinessState\<lparr>stack := [VUndefined]\<rparr>)))) 0) = 303"
  by (simp add: listedFalsy_def OP_NOT_def pop_def push_def isFalsy_def
      OP_JUMP_IF_FALSE_def withCurrentFrame_def readShort_def peek_def Let_def
      truthinessState_def byteAt_def toInt32_def)


section \<open>Upvalues\<close>













section \<open>Runtime errors and THROW\<close>

lemma asyncFrameLoop_False [simp]: "asyncFrameLoop vm False fs = None"
  by (induction fs) simp_all



lemma asyncFrameLoop_cong:
  "frames vm' = frames vm \<Longrightarrow> closures vm' = closures vm \<Longrightarrow>
   asyncFrameLoop vm' rp fs = asyncFrameLoop vm rp fs"
  by (induction fs) auto

lemma asyncFrameLoop_stack [simp]:
  "asyncFrameLoop (vm\<lparr>stack := s\<rparr>) rp fs = asyncFrameLoop vm rp fs"
  by (rule asyncFrameLoop_cong) simp_all

lemma runtimeError_async:
  assumes "asyncFrameLoop vm True (rev (callFrames vm)) = Some p"
  shows "runtimeError message True vm
    = Inr (vm\<lparr>microtaskQueue := microtaskQueue vm @ [RejectInternalTask p message], hasError := True\<rparr>)"
  using assms by (simp add: runtimeError_def reject_def scheduleMicrotask_def)

lemma runtimeError_handler:
  assumes "asyncFrameLoop vm rp (rev (callFrames vm)) = None"
    and "exceptionHandlers vm = hs @ [h]"
    and "popFramesAbove (frameIndex h) (callFrames vm) = fs @ [g]"
  shows "runtimeError message rp vm
    = Inr (vm\<lparr>exceptionHandlers := hs, callFrames := fs @ [g], currentFrame := Some g,
              stack := js_set_length (stackSize h) (stack vm) @ [message],
              frames := (frames vm)(g := (frames vm g)\<lparr>ip := targetIp h\<rparr>)\<rparr>)"
  using assms by (simp add: runtimeError_def Let_def push_def)

lemma runtimeError_fatal:
  assumes "asyncFrameLoop vm rp (rev (callFrames vm)) = None" and "exceptionHandlers vm = []"
  shows "runtimeError message rp vm
    = Inr (vm\<lparr>consoleError := consoleError vm @ [(message,
                case currentFrame vm of
                  Some f \<Rightarrow> fn_name (cl_func (closures vm (closure (frames vm f))))
                | None \<Rightarrow> ''<script>'')],
              hasError := True\<rparr>)"
  using assms by (simp add: runtimeError_def Let_def)

lemma js_String_simps [simp]:
  "js_String host vm VUndefined = Inr (''undefined'', vm)"
  "js_String host vm VNull = Inr (''null'', vm)"
  "js_String host vm (VBool b) = Inr (if b then ''true'' else ''false'', vm)"
  "js_String host vm (VString s) = Inr (s, vm)"
  by (simp_all add: js_String_def)

text \<open>\<open>OP_THROW\<close> is: pop, convert, raise the string with \<open>rejectPromise\<close> true.\<close>

lemma OP_THROW_converts:
  assumes "stack vm = st @ [v]"
  shows "OP_THROW host vm
    = andThen (js_String host (vm\<lparr>stack := st\<rparr>) v) (\<lambda>(s, vm2).
        andThen (runtimeError (VString s) True vm2) (\<lambda>vm3.
          Inr (if hasError vm3 then RUNTIME_ERROR else OK, vm3)))"
  using assms by (simp add: OP_THROW_def pop_def)

lemma OP_THROW_leaves:
  assumes "stack vm = st @ [v]" and "js_String host (vm\<lparr>stack := st\<rparr>) v = Inl e"
  shows "OP_THROW host vm = Inl e"
  using assms by (simp add: OP_THROW_converts)

lemma OP_THROW_async:
  assumes "stack vm = st @ [v]" and "js_String host (vm\<lparr>stack := st\<rparr>) v = Inr (s, vm2)"
    and "asyncFrameLoop vm2 True (rev (callFrames vm2)) = Some p"
  shows "OP_THROW host vm = Inr (RUNTIME_ERROR,
     vm2\<lparr>microtaskQueue := microtaskQueue vm2 @ [RejectInternalTask p (VString s)],
         hasError := True\<rparr>)"
  using assms by (simp add: OP_THROW_converts runtimeError_async)

lemma OP_THROW_handler:
  assumes "stack vm = st @ [v]" and "js_String host (vm\<lparr>stack := st\<rparr>) v = Inr (s, vm2)"
    and "asyncFrameLoop vm2 True (rev (callFrames vm2)) = None"
    and "exceptionHandlers vm2 = hs @ [h]"
    and "popFramesAbove (frameIndex h) (callFrames vm2) = fs @ [g]"
  shows "OP_THROW host vm = Inr (if hasError vm2 then RUNTIME_ERROR else OK,
     vm2\<lparr>exceptionHandlers := hs, callFrames := fs @ [g], currentFrame := Some g,
         stack := js_set_length (stackSize h) (stack vm2) @ [VString s],
         frames := (frames vm2)(g := (frames vm2 g)\<lparr>ip := targetIp h\<rparr>)\<rparr>)"
  using assms by (simp add: OP_THROW_converts runtimeError_handler)

lemma js_String_of_string:
  "js_String host vm (VString t) = Inr (s, vm2) \<Longrightarrow> s = t \<and> vm2 = vm"
  by simp


lemma errorState_facts:
  "callFrames (errorState a) = [20, 21]"
  "isAsyncFrame (errorState a) 21 = a"
  "\<not> isAsyncFrame (errorState a) 20"
  "asyncPromise (frames (errorState a) 21) = Some 5"
  "exceptionHandlers (errorState a) = [] @ [\<lparr>targetIp = 9, stackSize = 1, frameIndex = 1\<rparr>]"
  "stack (errorState a) = [VClosure 11] @ [VBool True]"
  "microtaskQueue (errorState a) = []"
  "hasError (errorState a) = False"
  "state (promises (errorState a) 5) = PENDING"
  by (simp_all add: errorState_def isAsyncFrame_def emptyFunction_def VM_constructor_def)






text \<open>
  C10, for a thrown value \<open>v\<close> whose conversion returns: \<open>String(v)\<close> gives the string \<open>s\<close>
  and leaves the machine in \<open>vm2\<close>. \<open>OP_THROW\<close> pops \<open>v\<close> and raises the error with \<open>s\<close>. So
  whichever way the error goes, the string is what arrives: the promise of the enclosing
  async frame is about to be rejected with \<open>s\<close>, and a catch handler finds \<open>s\<close> on top of
  the stack (above the depth the handler recorded; the handler is popped, the frames
  above its frame are dropped and its frame continues at the catch address). A value
  that is no string is never delivered itself; a string is delivered unchanged. For
  \<open>undefined\<close>, null, a boolean and a string the conversion does return, with the string
  the language fixes and the state as it was.
\<close>

theorem throw_delivers_the_string_of_the_value:
  assumes "stack vm = st @ [v]" and "js_String host (vm\<lparr>stack := st\<rparr>) v = Inr (s, vm2)"
  shows "(\<forall>p. asyncFrameLoop vm2 True (rev (callFrames vm2)) = Some p \<longrightarrow>
            OP_THROW host vm
              = Inr (RUNTIME_ERROR,
                   vm2\<lparr>microtaskQueue := microtaskQueue vm2 @ [RejectInternalTask p (VString s)],
                       hasError := True\<rparr>))
    \<and> (\<forall>hs h fs g. asyncFrameLoop vm2 True (rev (callFrames vm2)) = None
            \<and> exceptionHandlers vm2 = hs @ [h]
            \<and> popFramesAbove (frameIndex h) (callFrames vm2) = fs @ [g] \<longrightarrow>
            OP_THROW host vm
              = Inr (if hasError vm2 then RUNTIME_ERROR else OK,
                   vm2\<lparr>exceptionHandlers := hs, callFrames := fs @ [g], currentFrame := Some g,
                       stack := js_set_length (stackSize h) (stack vm2) @ [VString s],
                       frames := (frames vm2)(g := (frames vm2 g)\<lparr>ip := targetIp h\<rparr>)\<rparr>))
    \<and> ((\<forall>t. v \<noteq> VString t) \<longrightarrow> VString s \<noteq> v)
    \<and> (\<forall>t. v = VString t \<longrightarrow> s = t)
    \<and> (v = VUndefined \<longrightarrow> s = ''undefined'') \<and> (v = VNull \<longrightarrow> s = ''null'')
    \<and> (v = VBool True \<longrightarrow> s = ''true'') \<and> (v = VBool False \<longrightarrow> s = ''false'')
    \<and> ((v = VUndefined \<or> v = VNull \<or> (\<exists>b. v = VBool b) \<or> (\<exists>t. v = VString t))
          \<longrightarrow> vm2 = vm\<lparr>stack := st\<rparr>)"
proof (intro conjI)
  show "\<forall>p. asyncFrameLoop vm2 True (rev (callFrames vm2)) = Some p \<longrightarrow>
            OP_THROW host vm
              = Inr (RUNTIME_ERROR,
                   vm2\<lparr>microtaskQueue := microtaskQueue vm2 @ [RejectInternalTask p (VString s)],
                       hasError := True\<rparr>)"
    using OP_THROW_async [OF assms] by blast
  show "\<forall>hs h fs g. asyncFrameLoop vm2 True (rev (callFrames vm2)) = None
            \<and> exceptionHandlers vm2 = hs @ [h]
            \<and> popFramesAbove (frameIndex h) (callFrames vm2) = fs @ [g] \<longrightarrow>
            OP_THROW host vm
              = Inr (if hasError vm2 then RUNTIME_ERROR else OK,
                   vm2\<lparr>exceptionHandlers := hs, callFrames := fs @ [g], currentFrame := Some g,
                       stack := js_set_length (stackSize h) (stack vm2) @ [VString s],
                       frames := (frames vm2)(g := (frames vm2 g)\<lparr>ip := targetIp h\<rparr>)\<rparr>)"
    using OP_THROW_handler [OF assms] by blast
  show "(\<forall>t. v \<noteq> VString t) \<longrightarrow> VString s \<noteq> v"
    by blast
  show "\<forall>t. v = VString t \<longrightarrow> s = t"
    using assms(2) by auto
  show "v = VUndefined \<longrightarrow> s = ''undefined''" "v = VNull \<longrightarrow> s = ''null''"
    "v = VBool True \<longrightarrow> s = ''true''" "v = VBool False \<longrightarrow> s = ''false''"
    using assms(2) by auto
  show "(v = VUndefined \<or> v = VNull \<or> (\<exists>b. v = VBool b) \<or> (\<exists>t. v = VString t))
          \<longrightarrow> vm2 = vm\<lparr>stack := st\<rparr>"
    using assms(2) by auto
qed


text \<open>
  The theorem at the states \<open>errorState False\<close> and \<open>errorState True\<close>, which throw the
  boolean true: the handler receives the string "true", and so does the promise.
\<close>

theorem throw_delivers_the_string_of_the_value_witness:
  "stack (errorState False) = [VClosure 11] @ [VBool True]
   \<and> js_String engineString ((errorState False)\<lparr>stack := [VClosure 11]\<rparr>) (VBool True)
      = Inr (''true'', (errorState False)\<lparr>stack := [VClosure 11]\<rparr>)
   \<and> OP_THROW engineString (errorState False)
      = Inr (OK, (errorState False)\<lparr>exceptionHandlers := [], currentFrame := Some 21,
               stack := [VClosure 11, VString ''true''],
               frames := (frames (errorState False))(21 := (frames (errorState False) 21)\<lparr>ip := 9\<rparr>)\<rparr>)
   \<and> OP_THROW engineString (errorState True)
      = Inr (RUNTIME_ERROR, (errorState True)\<lparr>stack := [VClosure 11],
               microtaskQueue := [RejectInternalTask 5 (VString ''true'')], hasError := True\<rparr>)"
proof -
  have c: "js_String engineString ((errorState a)\<lparr>stack := [VClosure 11]\<rparr>) (VBool True)
      = Inr (''true'', (errorState a)\<lparr>stack := [VClosure 11]\<rparr>)" for a
    by simp
  have pf: "popFramesAbove (frameIndex \<lparr>targetIp = 9, stackSize = 1, frameIndex = 1\<rparr>)
      (callFrames ((errorState False)\<lparr>stack := [VClosure 11]\<rparr>)) = [20] @ [21]"
    by (subst popFramesAbove.simps) (simp add: errorState_facts)
  have n: "asyncFrameLoop ((errorState False)\<lparr>stack := [VClosure 11]\<rparr>) True
      (rev (callFrames ((errorState False)\<lparr>stack := [VClosure 11]\<rparr>))) = None"
    by (simp add: errorState_def emptyFunction_def)
  have y: "asyncFrameLoop ((errorState True)\<lparr>stack := [VClosure 11]\<rparr>) True
      (rev (callFrames ((errorState True)\<lparr>stack := [VClosure 11]\<rparr>))) = Some 5"
    by (simp add: errorState_def)
  have h: "exceptionHandlers ((errorState False)\<lparr>stack := [VClosure 11]\<rparr>)
      = [] @ [\<lparr>targetIp = 9, stackSize = 1, frameIndex = 1\<rparr>]"
    by (simp add: errorState_facts)
  note t1 = throw_delivers_the_string_of_the_value [OF errorState_facts(6) c, of False]
  note t2 = throw_delivers_the_string_of_the_value [OF errorState_facts(6) c, of True]
  from t1 [THEN conjunct2, THEN conjunct1, rule_format, OF conjI [OF n conjI [OF h pf]]]
  have "OP_THROW engineString (errorState False)
      = Inr (OK, (errorState False)\<lparr>stack := [VClosure 11], exceptionHandlers := [],
               callFrames := [20] @ [21], currentFrame := Some 21,
               stack := js_set_length 1 [VClosure 11] @ [VString ''true''],
               frames := (frames (errorState False))(21 := (frames (errorState False) 21)\<lparr>ip := 9\<rparr>)\<rparr>)"
    by (simp add: errorState_facts)
  moreover have "(errorState False)\<lparr>stack := [VClosure 11], exceptionHandlers := [],
               callFrames := [20] @ [21], currentFrame := Some 21,
               stack := js_set_length 1 [VClosure 11] @ [VString ''true''],
               frames := (frames (errorState False))(21 := (frames (errorState False) 21)\<lparr>ip := 9\<rparr>)\<rparr>
     = (errorState False)\<lparr>exceptionHandlers := [], currentFrame := Some 21,
               stack := [VClosure 11, VString ''true''],
               frames := (frames (errorState False))(21 := (frames (errorState False) 21)\<lparr>ip := 9\<rparr>)\<rparr>"
    by (simp add: errorState_def js_set_length_def)
  moreover from t2 [THEN conjunct1, rule_format, OF y]
  have "OP_THROW engineString (errorState True)
      = Inr (RUNTIME_ERROR, (errorState True)\<lparr>stack := [VClosure 11],
               microtaskQueue := [RejectInternalTask 5 (VString ''true'')], hasError := True\<rparr>)"
    by (simp add: errorState_facts)
  ultimately show ?thesis
    using c [of False] by (simp add: errorState_facts)
qed


text \<open>
  C10 as stated, for every thrown value, fails where the conversion itself throws. In
  \<open>let o = {}; o.toString = 1; try { throw o.properties; } catch (e) {}\<close> the thrown
  value is the record of \<open>o\<close>, whose \<open>toString\<close> is no function and whose inherited
  \<open>valueOf\<close> gives the record back: \<open>String\<close> throws a \<open>TypeError\<close> inside the handler of
  \<open>OP_THROW\<close>, before \<open>runtimeError\<close> is called. The exception leaves \<open>run\<close>; nothing is
  delivered to the handler that the \<open>try\<close> block installed, which is still on the handler
  stack, and the frame is not moved to the catch address.
\<close>

theorem throw_of_a_record_counterexample:
  "stack throwState = [VClosure 11, VObject 60]
   \<and> exceptionHandlers throwState = [\<lparr>targetIp = 9, stackSize = 1, frameIndex = 1\<rparr>]
   \<and> run engineString throwState
      = Some (Inl (TypeError ''Cannot convert object to primitive value'',
           throwState\<lparr>currentFrame := Some 21, stack := [VClosure 11],
             frames := (frames throwState)(21 := (frames throwState 21)\<lparr>ip := 3\<rparr>)\<rparr>))"
  by (simp add: run_error run_idle run_step dispatch_def InstructionHandlers_keys_def Opcodes
      readByte_def byteAt_def operand_def withCurrentFrame_def nameOperand_def constantName_def
      js_get_def push_def pop_def Let_def OP_GET_PROPERTY_PROTO_def OP_THROW_def js_String_def
      engineString_def recordString_def throwState_def throwFunction_def VM_constructor_def)


section \<open>The bound on the frame stack\<close>

lemma OP_NEW_closure:
  assumes "currentFrame vm = Some f"
    and "byteAt (fn_bytecode (func (frames vm f))) (ip (frames vm f)) = Some argCount"
    and "stack vm = st @ VClosure c # as" and "length as = argCount"
  shows "\<exists>vm'. OP_NEW vm = Inr (OK, vm') \<and> callFrames vm' = callFrames vm @ [nextAddr vm' - 1]
     \<and> hasError vm' = hasError vm \<and> consoleError vm' = consoleError vm"
  using assms
  by (simp add: OP_NEW_def operand_def withCurrentFrame_def readByte_def Let_def peek_def
      nth_append ensurePrototype_def newObject_def stackWrite_def newCallFrame_def
      split: prod.splits)

lemma deep_lengths [simp]: "length deepFrames = 256" "length deepStack = 256"
  by (simp_all add: deepFrames_def deepStack_def)

lemma deepState_facts:
  "currentFrame (deepState i tv) = Some 355"
  "fn_bytecode (func (frames (deepState i tv) 355)) = [48, 0, 145, 0, 4, 50, 0, 113, 1, 0, 96, 0, 97]"
  "ip (frames (deepState i tv) 355) = i"
  "stack (deepState i tv) = deepStack @ tv # []"
  "length (callFrames (deepState i tv)) = 256"
  "MAX_CALL_FRAMES (deepState i tv) = 256"
  "hasError (deepState i tv) = False"
  "consoleError (deepState i tv) = []"
  "exceptionHandlers (deepState i tv) = []"
  by (simp_all add: deepState_def constructorA_def VM_constructor_def)

lemma deep_new:
  "\<exists>vm'. OP_NEW (deepState 3 (VClosure 50)) = Inr (OK, vm') \<and> length (callFrames vm') = 257
     \<and> \<not> hasError vm' \<and> consoleError vm' = []"
proof -
  have b: "byteAt (fn_bytecode (func (frames (deepState 3 (VClosure 50)) 355)))
             (ip (frames (deepState 3 (VClosure 50)) 355)) = Some 0"
    by (simp add: deepState_facts byteAt_def)
  from OP_NEW_closure [OF deepState_facts(1) b deepState_facts(4)]
  show ?thesis
    by (auto simp: deepState_facts)
qed

lemma asyncFrameLoop_not_async:
  "(\<And>f. \<not> fn_isAsync (cl_func (closures vm (closure (frames vm f))))) \<Longrightarrow>
   asyncFrameLoop vm rp fs = None"
  by (induction fs) simp_all

lemma deep_call:
  "\<exists>vm'. OP_CALL (deepState 11 (VClosure 50)) = Inr (RUNTIME_ERROR, vm')
     \<and> length (callFrames vm') = 256 \<and> hasError vm'
     \<and> consoleError vm' = [(VString ''Stack overflow.'', ''A'')]"
proof -
  let ?vm = "snd (readByte 355 (deepState 11 (VClosure 50)))"
  have na: "asyncFrameLoop ?vm True (rev (callFrames ?vm)) = None"
    by (rule asyncFrameLoop_not_async) (simp add: readByte_def deepState_def constructorA_def Let_def)
  have eh: "exceptionHandlers ?vm = []"
    by (simp add: readByte_def Let_def deepState_facts)
  have call: "OP_CALL (deepState 11 (VClosure 50)) = raise ''Stack overflow.'' ?vm"
    by (simp add: OP_CALL_def operand_def withCurrentFrame_def deepState_facts readByte_def
        Let_def peek_def byteAt_def nth_append)
       (simp add: deepState_def constructorA_def)
  have nm: "(case currentFrame ?vm of
               Some f \<Rightarrow> fn_name (cl_func (closures ?vm (closure (frames ?vm f))))
             | None \<Rightarrow> ''<script>'') = ''A''"
    by (simp add: readByte_def Let_def deepState_def constructorA_def)
  have "raise ''Stack overflow.'' ?vm
     = Inr (RUNTIME_ERROR, ?vm\<lparr>consoleError := consoleError ?vm @ [(VString ''Stack overflow.'', ''A'')],
                               hasError := True\<rparr>)"
    unfolding raise_def runtimeError_fatal [OF na eh] nm by simp
  with call show ?thesis
    by (simp add: readByte_def Let_def deepState_facts)
qed

lemma deep_method:
  "\<exists>vm'. OP_CALL_METHOD (deepState 8 (VObject 60)) = Some (Inr (OK, vm'))
     \<and> length (callFrames vm') = 257 \<and> \<not> hasError vm' \<and> consoleError vm' = []"
proof -
  let ?vm = "(deepState 8 (VObject 60))\<lparr>frames := (frames (deepState 8 (VObject 60)))
       (355 := (frames (deepState 8 (VObject 60)) 355)\<lparr>ip := 10\<rparr>),
       stack := deepStack\<rparr>"
  have walk: "protoWalk ?vm ''current'' ''m'' (VObject 60) = Some (Found (VClosure 50))"
    by (subst protoWalk.simps) (simp add: deepState_def hasOwnPropertyCall_def)
  have ops: "nameOperand (deepState 8 (VObject 60)) (\<lambda>methodName vm1. operand vm1 (\<lambda>argCount vm2.
             andThen (peek argCount vm2) (\<lambda>(receiver, vm3). Inr (methodName, argCount, receiver, vm3))))
     = Inr (''m'', 0, VObject 60, (deepState 8 (VObject 60))\<lparr>frames := (frames (deepState 8 (VObject 60)))
       (355 := (frames (deepState 8 (VObject 60)) 355)\<lparr>ip := 10\<rparr>)\<rparr>)"
    by (simp add: nameOperand_def operand_def withCurrentFrame_def deepState_facts readByte_def
        Let_def peek_def byteAt_def constantName_def js_get_def nth_append)
       (simp add: deepState_def constructorA_def nth_append)
  show ?thesis
    unfolding OP_CALL_METHOD_def ops
    apply (simp add: Let_def deepState_facts js_set_length_def ObjectPrototypeFunctions_def)
    apply (simp add: walk)
    apply (simp add: callMethodClosure_def Let_def newCallFrame_def deepState_facts)
    apply (simp add: deepState_def constructorA_def)
    done
qed


text \<open>
  C4 fails on the code. With 256 frames on the frame stack, \<open>OP_NEW\<close> and
  \<open>OP_CALL_METHOD\<close> push frame 257 and raise no error: they never look at
  \<open>MAX_CALL_FRAMES\<close>. Only \<open>OP_CALL\<close> does, and in the same situation it raises
  "Stack overflow." without pushing a frame.
\<close>

theorem frame_bound_is_tested_by_CALL_only:
  "length (callFrames (deepState 3 (VClosure 50))) = MAX_CALL_FRAMES (deepState 3 (VClosure 50))
   \<and> (\<exists>vm'. OP_NEW (deepState 3 (VClosure 50)) = Inr (OK, vm') \<and> length (callFrames vm') = 257
          \<and> \<not> hasError vm' \<and> consoleError vm' = [])
   \<and> (\<exists>vm'. OP_CALL_METHOD (deepState 8 (VObject 60)) = Some (Inr (OK, vm'))
          \<and> length (callFrames vm') = 257 \<and> \<not> hasError vm' \<and> consoleError vm' = [])
   \<and> (\<exists>vm'. OP_CALL (deepState 11 (VClosure 50)) = Inr (RUNTIME_ERROR, vm')
          \<and> length (callFrames vm') = 256 \<and> hasError vm'
          \<and> consoleError vm' = [(VString ''Stack overflow.'', ''A'')])"
  using deep_new deep_method deep_call by (simp add: deepState_facts)


section \<open>Property lookup along the prototype chain\<close>


lemma hasOwnPropertyCall_no_prototype:
  "properties_proto obj = NullPrototype \<Longrightarrow> map_of (properties obj) ''hasOwnProperty'' = None \<Longrightarrow>
   hasOwnPropertyCall who obj n = Inl (TypeError (who @ ''.properties.hasOwnProperty is not a function''))"
  by (simp add: hasOwnPropertyCall_def)




















section \<open>Promises\<close>

lemma keeps_refl [simp]: "keeps p vm vm"
  by (simp add: keeps_def)



lemma keeps_other:
  "promises vm' = promises vm \<Longrightarrow> nextAddr vm' = nextAddr vm \<Longrightarrow> keeps p vm vm'"
  by (simp add: keeps_def outcomeOf_def)

lemma keeps_schedule [simp]: "keeps p vm (scheduleMicrotask t vm)"
  by (simp add: keeps_def outcomeOf_def scheduleMicrotask_def)

lemma keeps_resolve [simp]: "keeps p vm (resolve q v vm)" "keeps p vm (reject q v vm)"
  by (simp_all add: resolve_def reject_def)









lemma keeps_field [simp]:
  "keeps p vm (vm\<lparr>callFrames := cf\<rparr>)" "keeps p vm (vm\<lparr>currentFrame := cu\<rparr>)"
  "keeps p vm (vm\<lparr>microtaskQueue := q\<rparr>)" "keeps p vm (vm\<lparr>stack := s\<rparr>)"
  "keeps p vm (vm\<lparr>callFrames := cf, currentFrame := cu\<rparr>)"
  by (simp_all add: keeps_def outcomeOf_def)

lemma keeps_left [simp]:
  "keeps p (vm\<lparr>callFrames := cf, currentFrame := cu\<rparr>) vm' = keeps p vm vm'"
  "keeps p (vm\<lparr>microtaskQueue := q\<rparr>) vm' = keeps p vm vm'"
  by (simp_all add: keeps_def outcomeOf_def)







lemma settle_Nil [simp]: "settle [] vm = Some (Inr vm)"
  by (subst settle.simps) simp

lemma settle_Cons:
  "settle (job # rest) vm =
     (case stepJob job vm of Inl e \<Rightarrow> Some (Inl e) | Inr (calls, vm1) \<Rightarrow> settle (calls @ rest) vm1)"
  by (subst settle.simps) simp













section \<open>The dispatch loop and the event loop\<close>

lemmas run_loop = run_error run_idle run_step runMicrotasks_Nil runMicrotasks_step
  eventLoop_done eventLoop_error eventLoop_step closeUpvalues_None settle_Cons

lemmas handlers = dispatch_def InstructionHandlers_keys_def Opcodes readByte_def byteAt_def
  operand_def withCurrentFrame_def nameOperand_def constantName_def js_get_def push_def
  peek_def pop_def newPromise_def scheduleMicrotask_def js_set_length_def newCallFrame_def
  resolve_def reject_def raise_def runtimeError_def Let_def
  OP_GET_GLOBAL_def OP_CALL_def OP_AWAIT_def OP_CONSTANT_def OP_RETURN_def promiseThen_def
  runTask_def runFunctionTask_def resolveInternal_def stepJob_def scheduleCallback_def

lemma OP_AWAIT_of_a_value:
  assumes "stack vm = st @ [v]" and "\<forall>p. v \<noteq> VPromise p"
  shows "OP_AWAIT vm = Inr (OK, vm)"
  using assms by (cases v) (simp_all add: OP_AWAIT_def peek_def)

lemma OP_AWAIT_of_a_promise:
  assumes "stack vm = st @ [VPromise p]" and "callFrames vm = fs @ [f]"
  shows "OP_AWAIT vm
    = Inr (YIELD, snd (promiseThen p (HAwaitFulfilled f) (HAwaitRejected f)
        (if fs = [] then vm\<lparr>callFrames := fs, currentFrame := None\<rparr> else vm\<lparr>callFrames := fs\<rparr>)))"
  using assms by (simp add: OP_AWAIT_def peek_def Let_def)

lemma await_resume_pops_the_top:
  assumes "stack vm = st @ [x]"
  shows "runTask (AwaitResumeTask f v) vm
    = Some (Inr (vm\<lparr>callFrames := callFrames vm @ [f], currentFrame := Some f, stack := st @ [v]\<rparr>))"
  using assms by (simp add: runTask_def runFunctionTask_def pop_def push_def)

text \<open>
  Claim C7. What holds of \<open>OP_AWAIT\<close> is in the three lemmas above: a value that is no
  promise leaves the machine as it is; on a promise the newest frame is popped and the
  two continuations are attached; the continuation of the fulfilment pushes the frame
  back, pops the value on top of the stack and pushes the resolved value. The value on
  top is the awaited promise only if nothing was pushed in between. But when the awaited
  promise is that of an async call, as in \<open>h(await g())\<close>, the body of \<open>g\<close> runs in between as
  a task of its own, and its \<open>OP_RETURN\<close> pushes the result of \<open>g\<close> above the promise. The
  continuation then replaces that result and leaves the awaited promise on the stack:
  the resumed frame calls \<open>h\<close> with one argument, finds the promise where the callee
  should be, and the run ends in the runtime error "Can only call functions and
  classes.", with which the promise of \<open>f\<close> is about to be rejected.
\<close>

theorem await_leaves_the_promise_on_the_stack:
  "\<exists>vm. eventLoop host awaitProgram = Some (Inr vm) \<and> hasError vm
     \<and> stack vm = [VNull, VClosure 10, VClosure 12, VPromise 31, VString ''done'']
     \<and> microtaskQueue vm = [RejectInternalTask 4 (VString ''Can only call functions and classes.'')]"
  by (simp add: run_loop handlers awaitProgram_def VM_constructor_def function_f_def function_g_def
      function_h_def)


section \<open>The compiler\<close>

lemmas compiler = compile_def compileClassDeclaration_def compileMethod_def
  tryCurrent_def onCurrent_def declareVariable_def defineVariable_def emitGetVariable_def
  resolveLocal_def addConstant_def emitConstant_def emitBytes_def emitByte_def emitReturn_def
  CompilerState_constructor_def upvalueBytes_def NATIVE_GLOBALS_def Let_def

text \<open>The two tests that the compiler does make.\<close>

lemma emitConstant_checks:
  assumes "emitConstant v c = Inr c1"
  shows "bytecode c1 = bytecode c @ [Op_CONSTANT, length (constants c)]" "length (constants c) \<le> 255"
  using assms by (auto simp add: emitConstant_def addConstant_def emitBytes_def split: if_splits)

lemma addLocal_checks:
  assumes "addLocal n c = Inr c1"
  shows "length (locals c1) = length (locals c) + 1" "length (locals c) \<le> 255"
  using assms by (auto simp add: addLocal_def split: if_splits)

text \<open>Reading a variable that is neither a local nor an upvalue adds its name unchecked.\<close>

lemma compile_read:
  assumes "resolveLocal ''a'' c = -1"
  shows "compileNode (Statement (ExpressionStatement (Identifier ''a''))) [c]
    = Inr [c\<lparr>constants := constants c @ [VString ''a''],
              bytecode := bytecode c @ [Op_GET_GLOBAL, length (constants c), Op_POP]\<rparr>]"
  using assms
  by (simp add: emitGetVariable_def onCurrent_def addConstant_def emitBytes_def emitByte_def
      NATIVE_GLOBALS_def Let_def)

lemma readsCode_0 [simp]: "readsCode k 0 = []"
  by (simp add: readsCode_def)

lemma readsCode_Cons: "readsCode k (Suc n) = [Op_GET_GLOBAL, k, Op_POP] @ readsCode (Suc k) n"
proof -
  have "[0..<Suc n] = 0 # map Suc [0..<n]"
    by (simp add: upt_conv_Cons map_Suc_upt del: upt_Suc)
  then show ?thesis
    by (simp add: readsCode_def comp_def del: upt_Suc)
qed

lemma readsCode_snoc: "readsCode k (Suc n) = readsCode k n @ [Op_GET_GLOBAL, k + n, Op_POP]"
  by (simp add: readsCode_def)

lemma length_readsCode [simp]: "length (readsCode k n) = 3 * n"
  by (induction n) (simp_all add: readsCode_snoc)

lemma compile_reads:
  assumes "resolveLocal ''a'' c = -1"
  shows "compileNodes (readsProgram n) [c]
    = Inr [c\<lparr>constants := constants c @ replicate n (VString ''a''),
              bytecode := bytecode c @ readsCode (length (constants c)) n\<rparr>]"
  using assms
proof (induction n arbitrary: c)
  case 0
  show ?case by (simp add: readsProgram_def)
next
  case (Suc n)
  let ?c = "c\<lparr>constants := constants c @ [VString ''a''],
              bytecode := bytecode c @ [Op_GET_GLOBAL, length (constants c), Op_POP]\<rparr>"
  have r: "resolveLocal ''a'' ?c = -1"
    using Suc.prems by (simp add: resolveLocal_def)
  have "compileNodes (readsProgram (Suc n)) [c] = compileNodes (readsProgram n) [?c]"
    using compile_read [OF Suc.prems] by (simp add: readsProgram_def)
  also have "\<dots> = Inr [?c\<lparr>constants := constants ?c @ replicate n (VString ''a''),
              bytecode := bytecode ?c @ readsCode (length (constants ?c)) n\<rparr>]"
    by (rule Suc.IH [OF r])
  also have "\<dots> = Inr [c\<lparr>constants := constants c @ replicate (Suc n) (VString ''a''),
              bytecode := bytecode c @ readsCode (length (constants c)) (Suc n)\<rparr>]"
    by (simp add: readsCode_Cons replicate_append_same)
  finally show ?case .
qed

lemma compile_readsProgram:
  "compile (readsProgram n)
     = Inr (FunctionObject ''<script>'' 0 (readsCode 0 n @ [Op_PUSH_NULL, Op_RETURN])
              (replicate n (VString ''a'')) 0 [] False False)"
proof -
  let ?c = "CompilerState_constructor ''<script>''"
  have r: "resolveLocal ''a'' ?c = -1"
    by (simp add: resolveLocal_def CompilerState_constructor_def Let_def)
  have l: "readsCode 0 n \<noteq> [] \<Longrightarrow> last (readsCode 0 n) = Op_POP"
    by (cases n) (simp_all add: readsCode_snoc)
  have "compile (readsProgram n)
      = andThen (Inr [?c\<lparr>constants := constants ?c @ replicate n (VString ''a''),
                        bytecode := bytecode ?c @ readsCode (length (constants ?c)) n\<rparr>])
          (\<lambda>cs. let c = hd cs;
                    c1 = (if bytecode c = [] \<or> last (bytecode c) \<noteq> Op_RETURN then emitReturn c else c)
                in Inr (FunctionObject (functionName c1) 0 (bytecode c1) (constants c1)
                          (length (upvalues c1)) (upvalues c1) False False))"
    unfolding compile_def compile_reads [OF r] ..
  also have "\<dots> = Inr (FunctionObject ''<script>'' 0 (readsCode 0 n @ [Op_PUSH_NULL, Op_RETURN])
              (replicate n (VString ''a'')) 0 [] False False)"
    using l
    by (cases "readsCode 0 n = []")
       (simp_all add: CompilerState_constructor_def Let_def emitReturn_def emitByte_def Opcodes)
  finally show ?thesis .
qed

text \<open>
  Claim C5. \<open>emitConstant\<close> and \<open>addLocal\<close> refuse an index above 255 (the two lemmas
  above), but every other path that adds a constant calls \<open>addConstant\<close> directly and
  emits the index it returns: the names of global variables in \<open>emitGetVariable\<close>,
  \<open>emitSetVariable\<close> and \<open>defineVariable\<close>, the names of properties and methods, the
  functions of \<open>OP_CLOSURE\<close>. A script of 257 statements \<^verbatim>\<open>a;\<close> compiles without an error;
  its constant pool has 257 entries, and the last \<open>OP_GET_GLOBAL\<close> has the operand 256.
\<close>

theorem constant_index_256_is_emitted:
  "\<exists>mainFunction. compile (readsProgram 257) = Inr mainFunction
     \<and> length (fn_constants mainFunction) = 257
     \<and> drop 768 (fn_bytecode mainFunction) = [Op_GET_GLOBAL, 256, Op_POP, Op_PUSH_NULL, Op_RETURN]"
proof -
  have "readsCode 0 (Suc 256) = readsCode 0 256 @ [Op_GET_GLOBAL, 0 + 256, Op_POP]"
    by (rule readsCode_snoc)
  then have "drop 768 (readsCode 0 257) = [Op_GET_GLOBAL, 256, Op_POP]"
    by simp
  then show ?thesis
    by (simp add: compile_readsProgram)
qed

lemma compile_greetProgram: "compile greetProgram = Inr greetMain"
  by (simp add: greetProgram_def greetMain_def compiler Opcodes)

lemma interpret_greetMain:
  "\<exists>vm. VM_interpret host greetMain VM_constructor = Some (Inr ((RUNTIME_ERROR, VUndefined), vm))
     \<and> consoleError vm = [(VString ''Can only get the prototype of functions/classes.'', ''<script>'')]"
  by (simp add: VM_interpret_def newClosure_def run_loop handlers OP_DEFINE_GLOBAL_def
      OP_GET_PROTOTYPE_def greetMain_def VM_constructor_def)

text \<open>A class without a constructor: the function object is emitted as a constant.\<close>

lemma class_without_constructor:
  assumes "find (\<lambda>p. m_kind p = ''constructor'') members = None" and "scopeDepth c = 0"
    and "length (constants c) \<le> 255"
  shows "compileClassDeclaration className members (c # cs)
    = attachMethods className members
        (defineVariable className
           (c\<lparr>constants := constants c
                  @ [VFunctionObject (FunctionObject className 0 [Op_GET_LOCAL, 0, Op_RETURN] [] 0 [] False False)],
               bytecode := bytecode c @ [Op_CONSTANT, length (constants c)]\<rparr>) # cs)"
  using assms
  by (simp add: compileClassDeclaration_def tryCurrent_def onCurrent_def declareVariable_def
      emitConstant_def addConstant_def emitBytes_def Let_def)

text \<open>
  Claim C2. For a class without a constructor the compiler emits \<open>OP_CONSTANT\<close>, which
  pushes the function object of the synthetic constructor itself, and no \<open>OP_CLOSURE\<close>,
  which alone makes a closure (as \<open>compileMethod\<close> emits it for a constructor that is
  written out). The program of the claim compiles, to \<open>greetMain\<close>; when it runs,
  \<open>OP_DEFINE_GLOBAL\<close> binds \<open>P\<close> to the function object, and the \<open>OP_GET_PROTOTYPE\<close> that
  prepares the method \<open>greet\<close> finds no closure: the run ends with the runtime error "Can
  only get the prototype of functions/classes.", and \<open>interpret\<close> returns
  \<open>RUNTIME_ERROR\<close> with the value \<open>undefined\<close>, not "hi".
\<close>

theorem default_constructor_is_no_closure:
  "\<exists>mainFunction vm. compile greetProgram = Inr mainFunction
     \<and> take 4 (fn_bytecode mainFunction) = [Op_CONSTANT, 0, Op_DEFINE_GLOBAL, 1]
     \<and> take 2 (fn_constants mainFunction)
         = [VFunctionObject (FunctionObject ''P'' 0 [Op_GET_LOCAL, 0, Op_RETURN] [] 0 [] False False),
            VString ''P'']
     \<and> VM_interpret host mainFunction VM_constructor = Some (Inr ((RUNTIME_ERROR, VUndefined), vm))
     \<and> consoleError vm = [(VString ''Can only get the prototype of functions/classes.'', ''<script>'')]"
proof -
  from interpret_greetMain [of host] obtain vm where
    "VM_interpret host greetMain VM_constructor = Some (Inr ((RUNTIME_ERROR, VUndefined), vm))"
    "consoleError vm = [(VString ''Can only get the prototype of functions/classes.'', ''<script>'')]"
    by blast
  moreover have "take 4 (fn_bytecode greetMain) = [Op_CONSTANT, 0, Op_DEFINE_GLOBAL, 1]"
    "take 2 (fn_constants greetMain)
       = [VFunctionObject (FunctionObject ''P'' 0 [Op_GET_LOCAL, 0, Op_RETURN] [] 0 [] False False),
          VString ''P'']"
    by (simp_all add: greetMain_def)
  ultimately show ?thesis
    using compile_greetProgram by blast
qed


end
